theory Spec2Isabelle
  imports Main "HOL-Library.Word"
begin

section \<open>Strings and numbers of the host language\<close>

text \<open>
  The service is TypeScript. A \<open>string\<close> here is a JavaScript string all of whose code
  units are below 256 (the Latin-1 range), one \<open>char\<close> per code unit; on that range
  \<open>trim\<close>, \<open>toLowerCase\<close> and the two regular expressions of the module are written
  out in full. Messages built by the module are ASCII.
\<close>

text \<open>JavaScript \<open>WhiteSpace\<close> and \<open>LineTerminator\<close> code units below 256: TAB, LF, VT, FF,
  CR, SP and NBSP.\<close>

definition isWhiteSpace :: "char \<Rightarrow> bool" where
  "isWhiteSpace c = ((of_char c :: nat) \<in> {9, 10, 11, 12, 13, 32, 160})"

text \<open>\<open>String.prototype.trim\<close>.\<close>

definition trim :: "string \<Rightarrow> string" where
  "trim s = rev (dropWhile isWhiteSpace (rev (dropWhile isWhiteSpace s)))"

text \<open>\<open>String.prototype.toLowerCase\<close> on one code unit of the Latin-1 range: A-Z and the
  accented capitals U+00C0..U+00DE (without the multiplication sign U+00D7) move up by 32.\<close>

definition toLowerCaseChar :: "char \<Rightarrow> char" where
  "toLowerCaseChar c =
     (let n = (of_char c :: nat)
      in if (65 \<le> n \<and> n \<le> 90) \<or> (192 \<le> n \<and> n \<le> 222 \<and> n \<noteq> 215)
         then char_of (n + 32) else c)"

definition toLowerCase :: "string \<Rightarrow> string" where
  "toLowerCase s = map toLowerCaseChar s"

text \<open>The character class \<open>[0-9a-f]\<close> under the flag \<open>i\<close>, and the same class without it.\<close>

definition isHexChar :: "char \<Rightarrow> bool" where
  "isHexChar c = (c \<in> set ''0123456789abcdefABCDEF'')"

definition isLowerHexChar :: "char \<Rightarrow> bool" where
  "isLowerHexChar c = (c \<in> set ''0123456789abcdef'')"

text \<open>\<open>input.replace(/^0x/i, "")\<close>: one leading \<open>0x\<close> or \<open>0X\<close> is removed.\<close>

fun stripHexPrefix :: "string \<Rightarrow> string" where
  "stripHexPrefix (a # b # rest) =
     (if a = CHR ''0'' \<and> (b = CHR ''x'' \<or> b = CHR ''X'') then rest else a # b # rest)"
| "stripHexPrefix s = s"

text \<open>\<open>String.prototype.padStart(n, c)\<close> with a one-character filler.\<close>

definition padStart :: "nat \<Rightarrow> char \<Rightarrow> string \<Rightarrow> string" where
  "padStart n c s = replicate (n - length s) c @ s"

text \<open>The digit characters; the first ten are the decimal digits.\<close>

definition hexDigit :: "nat \<Rightarrow> char" where
  "hexDigit d = ''0123456789abcdef'' ! d"

text \<open>\<open>Number.prototype.toString(16)\<close> on a non-negative integer.\<close>

fun toString16 :: "nat \<Rightarrow> string" where
  "toString16 n =
     (if n < 16 then [hexDigit n] else toString16 (n div 16) @ [hexDigit (n mod 16)])"

declare toString16.simps [simp del]

text \<open>Decimal rendering of an integer, as a template literal prints a number of magnitude
  below \<open>10^21\<close>; from there on JavaScript prints an exponent, which is not modelled.\<close>

fun showNat :: "nat \<Rightarrow> string" where
  "showNat n =
     (if n < 10 then [hexDigit n] else showNat (n div 10) @ [hexDigit (n mod 10)])"

declare showNat.simps [simp del]

definition showInt :: "int \<Rightarrow> string" where
  "showInt i = (if i < 0 then CHR ''-'' # showNat (nat (- i)) else showNat (nat i))"

text \<open>
  A value of type \<open>number\<close>: an integer, or a number that \<open>Number.isInteger\<close> rejects
  (a fraction, \<open>NaN\<close>, an infinity), which is kept as the text JavaScript prints for it.
  An integer is printed in decimal digits, as JavaScript does below \<open>10^21\<close>.
\<close>

datatype number = Integer int | NonInteger string

fun showNumber :: "number \<Rightarrow> string" where
  "showNumber (Integer i) = showInt i"
| "showNumber (NonInteger s) = s"

text \<open>
  What the module throws: \<open>Error m\<close> is \<open>new Error(m)\<close> raised by the module itself,
  \<open>RangeError m\<close> is what \<open>BigInt\<close> raises on a non-integer, and \<open>Failure m\<close> is any exception
  of a library or collaborator, named by its text.
\<close>

datatype error = Error string | RangeError string | Failure string

text \<open>\<open>String(error)\<close>.\<close>

fun String_error :: "error \<Rightarrow> string" where
  "String_error (Error m) = ''Error: '' @ m"
| "String_error (RangeError m) = ''RangeError: '' @ m"
| "String_error (Failure m) = m"

fun message :: "error \<Rightarrow> string" where
  "message (Error m) = m"
| "message (RangeError m) = m"
| "message (Failure m) = m"

section \<open>Identifier codec\<close>

definition normalizeHex :: "string \<Rightarrow> string" where
  "normalizeHex input = toLowerCase (stripHexPrefix (trim input))"

text \<open>\<open>/^[0-9a-f]+$/i.test(input)\<close>: at least one character, all of them hex digits.\<close>

definition isHex :: "string \<Rightarrow> bool" where
  "isHex input = (input \<noteq> [] \<and> list_all isHexChar input)"

definition requireHexBytes :: "string \<Rightarrow> int \<Rightarrow> string \<Rightarrow> error + string" where
  "requireHexBytes input expectedLengthBytes name =
     (let cleaned = normalizeHex input
      in if \<not> isHex cleaned \<or> int (length cleaned) \<noteq> expectedLengthBytes * 2
         then Inl (Error (name @ '' must be '' @ showInt expectedLengthBytes
                @ '' bytes hex (length '' @ showInt (expectedLengthBytes * 2)
                @ ''), got '' @ [CHR 0x27] @ input @ [CHR 0x27]))
         else Inr cleaned)"

text \<open>
  The asset name: \<open>0x59\<close>, the level as one byte, the owner key hash, all in hex. The
  owner is validated first, then the level; the level is printed with
  \<open>toString(16).padStart(2, "0")\<close>.
\<close>

definition makeBadgeAssetName :: "string \<Rightarrow> number \<Rightarrow> error + string" where
  "makeBadgeAssetName ownerVkhHex level =
     (case requireHexBytes ownerVkhHex 28 ''ownerVkhHex'' of
        Inl e \<Rightarrow> Inl e
      | Inr cleaned \<Rightarrow>
          (case level of
             NonInteger s \<Rightarrow>
               Inl (Error (''level must fit in 1 byte (0..255), got '' @ [CHR 0x27] @ s @ [CHR 0x27]))
           | Integer l \<Rightarrow>
               if l < 0 \<or> l > 255
               then Inl (Error (''level must fit in 1 byte (0..255), got '' @ [CHR 0x27]
                      @ showInt l @ [CHR 0x27]))
               else Inr (''59'' @ padStart 2 (CHR ''0'') (toString16 (nat l)) @ cleaned)))"

section \<open>Collaborators\<close>

text \<open>
  The module calls three kinds of code that are not part of it: pure library functions
  (\<open>lib\<close>), the process environment with the ledger client, the wallet and the file
  system (\<open>world\<close>), and two module-level variables that cache promises (\<open>cache\<close>).
  Each may throw; a result is \<open>Inl\<close> of the exception or \<open>Inr\<close> of the value.
\<close>

datatype script = PlutusV3 string

text \<open>The part of the library's \<open>Data\<close> that the module builds: byte strings given in hex,
  big integers and constructor applications.\<close>

datatype data = DString string | DBigInt int | Constr nat "data list"

record lib =
  Data_to :: "data \<Rightarrow> error + string"
  mintingPolicyToId :: "script \<Rightarrow> error + string"
  toUnit :: "string \<Rightarrow> string \<Rightarrow> error + string"
  validatorToAddress :: "string \<Rightarrow> script \<Rightarrow> error + string"
  Buffer_hex_to_utf8 :: "string \<Rightarrow> string"

text \<open>The key hash object of the serialization library, which offers \<open>to_hex\<close>,
  \<open>to_bytes\<close>, both or neither.\<close>

record keyHash =
  to_hex :: "string option"
  to_bytes :: "8 word list option"

record validator =
  title :: "string option"
  compiledCode :: "string option"
  hash :: "string option"

record preamble =
  plutusVersion :: "string option"

record blueprint =
  preamble :: "preamble option"
  validators :: "validator list option"

datatype utxo = UTxO string nat

type_synonym tx = string

type_synonym signed_tx = string

text \<open>An object literal of asset quantities, entry by entry as written; a later entry with
  the same key replaces an earlier one.\<close>

type_synonym assets = "(string \<times> int) list"

definition quantityOf :: "assets \<Rightarrow> string \<Rightarrow> int option" where
  "quantityOf a u = map_of (rev a) u"

text \<open>
  The calls on the transaction builder between \<open>newTx()\<close> and \<open>complete()\<close>. The datum
  of \<open>PayToContract\<close> is an inline datum.
\<close>

datatype step =
    AttachMintingPolicy script
  | AttachSpendingValidator script
  | AddSignerKey string
  | CollectFrom "utxo list" string
  | MintAssets assets string
  | PayToContract string string assets

record world =
  BLOCKFROST_PROJECT_ID :: "string option"
  CARDANO_SIGNING_KEY :: "string option"
  CARDANO_NETWORK :: string
  paymentKeyHash :: "error + keyHash"
  readBlueprint :: "error + blueprint"
  connectLucid :: "error + unit"
  utxosAtWithUnit :: "string \<Rightarrow> string \<Rightarrow> error + utxo list"
  complete :: "step list \<Rightarrow> error + tx"
  sign :: "tx \<Rightarrow> error + signed_tx"
  submit :: "signed_tx \<Rightarrow> error + string"

text \<open>
  \<open>paymentKeyHash\<close> is \<open>PrivateKey.from_bech32(CARDANO_SIGNING_KEY).to_public().hash()\<close>,
  \<open>readBlueprint\<close> is reading and parsing \<open>cardano-contract/plutus.json\<close>, \<open>connectLucid\<close> is
  creating the provider, the client and selecting the wallet; \<open>complete\<close> builds the
  transaction from the steps, \<open>sign\<close> signs it with the wallet and \<open>submit\<close> returns the
  transaction hash.
\<close>

record cache =
  blueprintPromise :: "(error + blueprint) option"
  lucidPromise :: "(error + unit) option"

datatype action = Init | Upgrade | Retire | Unsupported string

fun String_action :: "action \<Rightarrow> string" where
  "String_action Init = ''Init''"
| "String_action Upgrade = ''Upgrade''"
| "String_action Retire = ''Retire''"
| "String_action (Unsupported s) = s"

text \<open>What the outside can observe of a call, in order: log records (fields, then message)
  and calls to the collaborators.\<close>

datatype event =
    Logger_warn "(string \<times> string) list" string
  | Logger_info "(string \<times> string) list" string
  | Logger_error error string
  | ReadBlueprint
  | ConnectLucid
  | UtxosAtWithUnit string string
  | TxComplete "step list"
  | TxSign tx
  | TxSubmit signed_tx

text \<open>A computation of the module: from the cached promises to the events it causes, the
  cached promises afterwards, and the exception thrown or the value returned.\<close>

type_synonym 'a io = "cache \<Rightarrow> event list \<times> cache \<times> (error + 'a)"

definition io_return :: "'a \<Rightarrow> 'a io" where
  "io_return x = (\<lambda>c. ([], c, Inr x))"

definition io_throw :: "error \<Rightarrow> 'a io" where
  "io_throw e = (\<lambda>c. ([], c, Inl e))"

text \<open>A call that may throw and has no other effect.\<close>

definition io_of :: "error + 'a \<Rightarrow> 'a io" where
  "io_of r = (\<lambda>c. ([], c, r))"

text \<open>A log record.\<close>

definition io_emit :: "event \<Rightarrow> unit io" where
  "io_emit ev = (\<lambda>c. ([ev], c, Inr ()))"

text \<open>A call to a collaborator: the event, then its result.\<close>

definition io_call :: "event \<Rightarrow> error + 'a \<Rightarrow> 'a io" where
  "io_call ev r = (\<lambda>c. ([ev], c, r))"

text \<open>One statement after another; an exception ends the sequence.\<close>

definition io_bind :: "'a io \<Rightarrow> ('a \<Rightarrow> 'b io) \<Rightarrow> 'b io" where
  "io_bind m f = (\<lambda>c.
     case m c of
       (t, c', Inl e) \<Rightarrow> (t, c', Inl e)
     | (t, c', Inr x) \<Rightarrow> (case f x c' of (t', c'', r) \<Rightarrow> (t @ t', c'', r)))"

text \<open>\<open>try { m } catch (e) { h e }\<close>.\<close>

definition io_catch :: "'a io \<Rightarrow> (error \<Rightarrow> 'a io) \<Rightarrow> 'a io" where
  "io_catch m h = (\<lambda>c.
     case m c of
       (t, c', Inr x) \<Rightarrow> (t, c', Inr x)
     | (t, c', Inl e) \<Rightarrow> (case h e c' of (t', c'', r) \<Rightarrow> (t @ t', c'', r)))"

definition trace :: "event list \<times> cache \<times> (error + 'a) \<Rightarrow> event list" where
  "trace r = fst r"

definition outcome :: "event list \<times> cache \<times> (error + 'a) \<Rightarrow> error + 'a" where
  "outcome r = snd (snd r)"

section \<open>Configuration, key hash, blueprint and ledger client\<close>

text \<open>\<open>!v\<close> for an environment variable: not set, or empty.\<close>

definition falsy :: "string option \<Rightarrow> bool" where
  "falsy v = (v = None \<or> v = Some [])"

definition assertBlockchainEnv :: "world \<Rightarrow> error + unit" where
  "assertBlockchainEnv W =
     (if falsy (BLOCKFROST_PROJECT_ID W) then Inl (Error ''BLOCKFROST_PROJECT_ID is not configured'')
      else if falsy (CARDANO_SIGNING_KEY W) then Inl (Error ''CARDANO_SIGNING_KEY is not configured'')
      else Inr ())"

text \<open>\<open>Buffer.from(bytes).toString("hex")\<close>.\<close>

definition Buffer_toString_hex :: "8 word list \<Rightarrow> string" where
  "Buffer_toString_hex bs = concat (map (\<lambda>b. padStart 2 (CHR ''0'') (toString16 (unat b))) bs)"

definition getBackendPaymentKeyHashHex :: "world \<Rightarrow> error + string" where
  "getBackendPaymentKeyHashHex W =
     (case paymentKeyHash W of
        Inl e \<Rightarrow> Inl e
      | Inr keyHash \<Rightarrow>
          (case to_hex keyHash of
             Some h \<Rightarrow> Inr (toLowerCase h)
           | None \<Rightarrow>
               (case to_bytes keyHash of
                  Some bs \<Rightarrow> Inr (toLowerCase (Buffer_toString_hex bs))
                | None \<Rightarrow>
                    Inl (Error ''Unable to derive payment key hash from CARDANO_SIGNING_KEY''))))"

text \<open>
  \<open>loadBlueprint\<close> and \<open>getLucid\<close> keep the promise of their first call, fulfilled or
  rejected; \<open>assertBlockchainEnv\<close> throws before a promise is kept.
\<close>

definition loadBlueprint :: "world \<Rightarrow> blueprint io" where
  "loadBlueprint W = (\<lambda>c.
     case blueprintPromise c of
       None \<Rightarrow> ([ReadBlueprint], c\<lparr>blueprintPromise := Some (readBlueprint W)\<rparr>, readBlueprint W)
     | Some r \<Rightarrow> ([], c, r))"

definition getLucid :: "world \<Rightarrow> unit io" where
  "getLucid W = (\<lambda>c.
     case lucidPromise c of
       None \<Rightarrow>
         (case assertBlockchainEnv W of
            Inl e \<Rightarrow> ([], c, Inl e)
          | Inr _ \<Rightarrow> ([ConnectLucid], c\<lparr>lucidPromise := Some (connectLucid W)\<rparr>, connectLucid W))
     | Some r \<Rightarrow> ([], c, r))"

definition findScript :: "blueprint \<Rightarrow> string \<Rightarrow> error + script" where
  "findScript bp name =
     (let found = (case validators bp of
                     None \<Rightarrow> None
                   | Some vs \<Rightarrow> find (\<lambda>v. title v = Some name) vs);
          missing = Inl (Error (''Compiled script not found in cardano-contract/plutus.json: '' @ name))
      in case found of
           None \<Rightarrow> missing
         | Some v \<Rightarrow>
             (case compiledCode v of
                None \<Rightarrow> missing
              | Some code \<Rightarrow> if code = [] then missing else Inr (PlutusV3 code)))"

section \<open>Datum and redeemer encoders\<close>

text \<open>\<open>BigInt(n)\<close> for a \<open>number\<close>.\<close>

fun BigInt :: "number \<Rightarrow> error + int" where
  "BigInt (Integer i) = Inr i"
| "BigInt (NonInteger s) =
     Inl (RangeError (''The number '' @ s
        @ '' cannot be converted to a BigInt because it is not an integer''))"

definition encodeBadgeDatum :: "lib \<Rightarrow> string \<Rightarrow> number \<Rightarrow> string \<Rightarrow> error + string" where
  "encodeBadgeDatum L ownerKeyHashHex level policyId =
     (case BigInt level of
        Inl e \<Rightarrow> Inl e
      | Inr l \<Rightarrow> Data_to L (Constr 0 [DString ownerKeyHashHex, DBigInt l, DString policyId]))"

record redeemer_args =
  args_level :: "number option"
  args_fromLevel :: "number option"
  args_toLevel :: "number option"

definition encodeBadgeMintRedeemer ::
    "lib \<Rightarrow> action \<Rightarrow> string \<Rightarrow> redeemer_args \<Rightarrow> error + string" where
  "encodeBadgeMintRedeemer L act ownerKeyHashHex args =
     (if act = Init then
        (case args_level args of
           None \<Rightarrow> Inl (Error ''Missing level for Init redeemer'')
         | Some lv \<Rightarrow>
             (case BigInt lv of
                Inl e \<Rightarrow> Inl e
              | Inr l \<Rightarrow> Data_to L (Constr 0 [DString ownerKeyHashHex, DBigInt l])))
      else if act = Upgrade then
        (case (args_fromLevel args, args_toLevel args) of
           (Some fromL, Some toL) \<Rightarrow>
             (case BigInt fromL of
                Inl e \<Rightarrow> Inl e
              | Inr f \<Rightarrow>
                  (case BigInt toL of
                     Inl e \<Rightarrow> Inl e
                   | Inr t \<Rightarrow> Data_to L (Constr 1 [DString ownerKeyHashHex, DBigInt f, DBigInt t])))
         | _ \<Rightarrow> Inl (Error ''Missing fromLevel/toLevel for Upgrade redeemer''))
      else
        (case args_level args of
           None \<Rightarrow> Inl (Error ''Missing level for Retire redeemer'')
         | Some lv \<Rightarrow>
             (case BigInt lv of
                Inl e \<Rightarrow> Inl e
              | Inr l \<Rightarrow> Data_to L (Constr 2 [DString ownerKeyHashHex, DBigInt l]))))"

definition encodeBadgeHolderRedeemer :: "lib \<Rightarrow> action \<Rightarrow> number option \<Rightarrow> error + string" where
  "encodeBadgeHolderRedeemer L act newLevel =
     (if act = Upgrade then
        (case newLevel of
           None \<Rightarrow> Inl (Error ''Missing newLevel for badge-holder Upgrade'')
         | Some nl \<Rightarrow>
             (case BigInt nl of
                Inl e \<Rightarrow> Inl e
              | Inr l \<Rightarrow> Data_to L (Constr 0 [DBigInt l])))
      else Data_to L (Constr 1 []))"

section \<open>The public operation\<close>

record mint_args =
  arg_ownerVkhHex :: "string option"
  arg_level :: number
  arg_action :: "action option"

record mint_result =
  success :: bool
  res_action :: action
  res_level :: number
  res_ownerVkhHex :: string
  res_assetNameHex :: "string option"
  res_assetName :: "string option"
  res_policyId :: string
  res_unit :: "string option"
  res_fromUnit :: "string option"
  res_toUnit :: "string option"
  res_badgeHolderAddress :: string
  res_txHash :: string
  res_message :: string

text \<open>The constants of \<open>mintBadge\<close> that are computed before its \<open>try\<close> block.\<close>

record prepared =
  p_badgeMintPolicy :: script
  p_badgeHolderValidator :: script
  p_policyId :: string
  p_assetNameHex :: string
  p_unit :: string
  p_badgeHolderAddress :: string
  p_badgeDatumCbor :: string

text \<open>Lines 241 to 256 of \<open>mintBadge\<close>: the owner hint is validated and compared; the only
  effect is a warning.\<close>

definition mintBadge_ownerHint :: "string option \<Rightarrow> string \<Rightarrow> unit io" where
  "mintBadge_ownerHint ownerVkhHex ownerKeyHashHex =
     (case ownerVkhHex of
        None \<Rightarrow> io_return ()
      | Some hint \<Rightarrow>
          if hint = [] then io_return ()
          else
            (case requireHexBytes hint 28 ''ownerVkhHex'' of
               Inr requested \<Rightarrow>
                 if requested \<noteq> ownerKeyHashHex
                 then io_emit (Logger_warn
                        [(''requestedOwnerVkhHex'', requested), (''ownerKeyHashHex'', ownerKeyHashHex)]
                        ''Ignoring provided ownerVkhHex; using server signing key'')
                 else io_return ()
             | Inl e \<Rightarrow>
                 io_emit (Logger_warn
                   [(''ownerVkhHex'', hint), (''error'', String_error e)]
                   ''Invalid ownerVkhHex provided; using server signing key'')))"

text \<open>Lines 260 to 284 of \<open>mintBadge\<close>: blueprint, scripts, ledger client, policy id, asset
  name, unit, holder address and datum.\<close>

definition mintBadge_setup :: "lib \<Rightarrow> world \<Rightarrow> string \<Rightarrow> number \<Rightarrow> prepared io" where
  "mintBadge_setup L W ownerKeyHashHex level =
     io_bind (loadBlueprint W) (\<lambda>bp.
     let version = (case preamble bp of None \<Rightarrow> None | Some pre \<Rightarrow> plutusVersion pre)
     in if version \<noteq> Some ''v3''
        then io_throw (Error (''Expected Plutus V3 blueprint at cardano-contract/plutus.json, got ''
               @ (case version of None \<Rightarrow> ''undefined'' | Some v \<Rightarrow> v)))
        else
     io_bind (io_of (findScript bp ''badge_mint.badge_mint.mint'')) (\<lambda>badgeMintPolicy.
     io_bind (io_of (findScript bp ''badge_holder.badge_holder.spend'')) (\<lambda>badgeHolderValidator.
     io_bind (getLucid W) (\<lambda>lucid.
     io_bind (io_of (mintingPolicyToId L badgeMintPolicy)) (\<lambda>policyId.
     io_bind (io_of (makeBadgeAssetName ownerKeyHashHex level)) (\<lambda>assetNameHex.
     io_bind (io_of (toUnit L policyId assetNameHex)) (\<lambda>unit.
     io_bind (io_of (validatorToAddress L (CARDANO_NETWORK W) badgeHolderValidator)) (\<lambda>badgeHolderAddress.
     io_bind (io_of (encodeBadgeDatum L ownerKeyHashHex level policyId)) (\<lambda>badgeDatumCbor.
     io_return \<lparr>p_badgeMintPolicy = badgeMintPolicy,
                p_badgeHolderValidator = badgeHolderValidator,
                p_policyId = policyId,
                p_assetNameHex = assetNameHex,
                p_unit = unit,
                p_badgeHolderAddress = badgeHolderAddress,
                p_badgeDatumCbor = badgeDatumCbor\<rparr>)))))))))"

text \<open>Lines 287 to 426 of \<open>mintBadge\<close>: the body of the \<open>try\<close> block. The level has passed
  \<open>makeBadgeAssetName\<close> by then, so it is an integer \<open>l\<close>.\<close>

definition mintBadge_try ::
    "lib \<Rightarrow> world \<Rightarrow> string \<Rightarrow> int \<Rightarrow> action \<Rightarrow> prepared \<Rightarrow> mint_result io" where
  "mintBadge_try L W ownerKeyHashHex l act p =
     (let badgeMintPolicy = p_badgeMintPolicy p;
          badgeHolderValidator = p_badgeHolderValidator p;
          policyId = p_policyId p;
          assetNameHex = p_assetNameHex p;
          unit = p_unit p;
          badgeHolderAddress = p_badgeHolderAddress p;
          badgeDatumCbor = p_badgeDatumCbor p;
          level = Integer l
      in
      if act = Init then
        io_bind (io_of (encodeBadgeMintRedeemer L Init ownerKeyHashHex
                   \<lparr>args_level = Some level, args_fromLevel = None, args_toLevel = None\<rparr>))
          (\<lambda>mintRedeemer.
        let inlineDatum = badgeDatumCbor;
            steps = [AttachMintingPolicy badgeMintPolicy,
                     AddSignerKey ownerKeyHashHex,
                     MintAssets [(unit, 1)] mintRedeemer,
                     PayToContract badgeHolderAddress inlineDatum
                       [(''lovelace'', 2000000), (unit, 1)]]
        in
        io_bind (io_call (TxComplete steps) (complete W steps)) (\<lambda>tx.
        io_bind (io_call (TxSign tx) (sign W tx)) (\<lambda>signed.
        io_bind (io_call (TxSubmit signed) (submit W signed)) (\<lambda>txHash.
        io_return \<lparr>success = True,
                   res_action = act,
                   res_level = level,
                   res_ownerVkhHex = ownerKeyHashHex,
                   res_assetNameHex = Some assetNameHex,
                   res_assetName = Some (Buffer_hex_to_utf8 L assetNameHex),
                   res_policyId = policyId,
                   res_unit = Some unit,
                   res_fromUnit = None,
                   res_toUnit = None,
                   res_badgeHolderAddress = badgeHolderAddress,
                   res_txHash = txHash,
                   res_message = ''Badge minted and locked at badge-holder script''\<rparr>))))
      else if act = Upgrade then
        (let fromLevel = l - 1;
             toLevel = l
         in
         if fromLevel < 0
         then io_throw (Error ''Upgrade requires `level` >= 1 (target new level)'')
         else
         io_bind (io_of (makeBadgeAssetName ownerKeyHashHex (Integer fromLevel))) (\<lambda>fromAssetNameHex.
         io_bind (io_of (toUnit L policyId fromAssetNameHex)) (\<lambda>fromUnit.
         io_bind (io_of (makeBadgeAssetName ownerKeyHashHex (Integer toLevel))) (\<lambda>toAssetNameHex.
         io_bind (io_of (toUnit L policyId toAssetNameHex)) (\<lambda>toUnitValue.
         io_bind (io_call (UtxosAtWithUnit badgeHolderAddress fromUnit)
                    (utxosAtWithUnit W badgeHolderAddress fromUnit)) (\<lambda>scriptUtxos.
         case scriptUtxos of
           [] \<Rightarrow>
             io_throw (Error (''No badge-holder UTxO found for level '' @ showInt fromLevel
               @ '' at '' @ badgeHolderAddress))
         | targetUtxo # _ \<Rightarrow>
             io_bind (io_of (encodeBadgeMintRedeemer L Upgrade ownerKeyHashHex
                        \<lparr>args_level = None, args_fromLevel = Some (Integer fromLevel),
                         args_toLevel = Some (Integer toLevel)\<rparr>))
               (\<lambda>mintRedeemer.
             io_bind (io_of (encodeBadgeHolderRedeemer L Upgrade (Some (Integer toLevel))))
               (\<lambda>spendRedeemer.
             io_bind (io_of (encodeBadgeDatum L ownerKeyHashHex (Integer toLevel) policyId))
               (\<lambda>inlineDatum.
             let steps = [AttachMintingPolicy badgeMintPolicy,
                          AttachSpendingValidator badgeHolderValidator,
                          AddSignerKey ownerKeyHashHex,
                          CollectFrom [targetUtxo] spendRedeemer,
                          MintAssets [(fromUnit, - 1), (toUnitValue, 1)] mintRedeemer,
                          PayToContract badgeHolderAddress inlineDatum
                            [(''lovelace'', 2000000), (toUnitValue, 1)]]
             in
             io_bind (io_call (TxComplete steps) (complete W steps)) (\<lambda>tx.
             io_bind (io_call (TxSign tx) (sign W tx)) (\<lambda>signed.
             io_bind (io_call (TxSubmit signed) (submit W signed)) (\<lambda>txHash.
             io_return \<lparr>success = True,
                        res_action = act,
                        res_level = Integer toLevel,
                        res_ownerVkhHex = ownerKeyHashHex,
                        res_assetNameHex = None,
                        res_assetName = None,
                        res_policyId = policyId,
                        res_unit = None,
                        res_fromUnit = Some fromUnit,
                        res_toUnit = Some toUnitValue,
                        res_badgeHolderAddress = badgeHolderAddress,
                        res_txHash = txHash,
                        res_message = ''Badge upgraded''\<rparr>))))))))))))
      else if act = Retire then
        io_bind (io_of (makeBadgeAssetName ownerKeyHashHex level)) (\<lambda>assetNameHexRetire.
        io_bind (io_of (toUnit L policyId assetNameHexRetire)) (\<lambda>unitRetire.
        io_bind (io_call (UtxosAtWithUnit badgeHolderAddress unitRetire)
                   (utxosAtWithUnit W badgeHolderAddress unitRetire)) (\<lambda>scriptUtxos.
        case scriptUtxos of
          [] \<Rightarrow>
            io_throw (Error (''No badge-holder UTxO found for level '' @ showNumber level
              @ '' at '' @ badgeHolderAddress))
        | targetUtxo # _ \<Rightarrow>
            io_bind (io_of (encodeBadgeMintRedeemer L Retire ownerKeyHashHex
                       \<lparr>args_level = Some level, args_fromLevel = None, args_toLevel = None\<rparr>))
              (\<lambda>mintRedeemer.
            io_bind (io_of (encodeBadgeHolderRedeemer L Retire None)) (\<lambda>spendRedeemer.
            let steps = [AttachMintingPolicy badgeMintPolicy,
                         AttachSpendingValidator badgeHolderValidator,
                         AddSignerKey ownerKeyHashHex,
                         CollectFrom [targetUtxo] spendRedeemer,
                         MintAssets [(unitRetire, - 1)] mintRedeemer]
            in
            io_bind (io_call (TxComplete steps) (complete W steps)) (\<lambda>tx.
            io_bind (io_call (TxSign tx) (sign W tx)) (\<lambda>signed.
            io_bind (io_call (TxSubmit signed) (submit W signed)) (\<lambda>txHash.
            io_return \<lparr>success = True,
                       res_action = act,
                       res_level = level,
                       res_ownerVkhHex = ownerKeyHashHex,
                       res_assetNameHex = None,
                       res_assetName = None,
                       res_policyId = policyId,
                       res_unit = Some unitRetire,
                       res_fromUnit = None,
                       res_toUnit = None,
                       res_badgeHolderAddress = badgeHolderAddress,
                       res_txHash = txHash,
                       res_message = ''Badge retired (burned)''\<rparr>))))))))
      else io_throw (Error (''Unsupported action: '' @ String_action act)))"

text \<open>
  \<open>mintBadge\<close>. The owner is the key hash of the signing key; the hint is only compared
  with it. An exception inside the \<open>try\<close> block is logged and thrown again as it is.
  The branch for a level that is not an integer stands for code that is never reached:
  \<open>makeBadgeAssetName\<close> in \<open>mintBadge_setup\<close> has thrown for such a level.
\<close>

definition mintBadge :: "lib \<Rightarrow> world \<Rightarrow> mint_args \<Rightarrow> mint_result io" where
  "mintBadge L W a =
     (let ownerVkhHex = arg_ownerVkhHex a;
          level = arg_level a;
          act = (case arg_action a of None \<Rightarrow> Init | Some x \<Rightarrow> x)
      in
      io_bind (io_of (getBackendPaymentKeyHashHex W)) (\<lambda>ownerKeyHashHex.
      io_bind (mintBadge_ownerHint ownerVkhHex ownerKeyHashHex) (\<lambda>_.
      io_bind (io_emit (Logger_info
                 [(''ownerKeyHashHex'', ownerKeyHashHex), (''level'', showNumber level),
                  (''action'', String_action act)]
                 ''mintBadge called'')) (\<lambda>_.
      io_bind (mintBadge_setup L W ownerKeyHashHex level) (\<lambda>p.
      case level of
        NonInteger s \<Rightarrow>
          io_throw (Error (''level must fit in 1 byte (0..255), got '' @ [CHR 0x27] @ s @ [CHR 0x27]))
      | Integer l \<Rightarrow>
          io_catch (mintBadge_try L W ownerKeyHashHex l act p)
            (\<lambda>error. io_bind (io_emit (Logger_error error ''Badge mint failed''))
                        (\<lambda>_. io_throw error)))))))"

section \<open>Observations on a run\<close>

text \<open>The action of a request: \<open>Init\<close> when none is given.\<close>

definition theAction :: "mint_args \<Rightarrow> action" where
  "theAction a = (case arg_action a of None \<Rightarrow> Init | Some x \<Rightarrow> x)"

text \<open>The log record at the start of a call.\<close>

definition infoEvent :: "string \<Rightarrow> mint_args \<Rightarrow> event" where
  "infoEvent owner a =
     Logger_info [(''ownerKeyHashHex'', owner), (''level'', showNumber (arg_level a)),
                  (''action'', String_action (theAction a))] ''mintBadge called''"

text \<open>The kinds of events.\<close>

fun isQuery :: "event \<Rightarrow> bool" where
  "isQuery (UtxosAtWithUnit _ _) = True"
| "isQuery _ = False"

fun isBuild :: "event \<Rightarrow> bool" where
  "isBuild (TxComplete _) = True"
| "isBuild _ = False"

fun isSign :: "event \<Rightarrow> bool" where
  "isSign (TxSign _) = True"
| "isSign _ = False"

fun isSubmit :: "event \<Rightarrow> bool" where
  "isSubmit (TxSubmit _) = True"
| "isSubmit _ = False"

fun isWarn :: "event \<Rightarrow> bool" where
  "isWarn (Logger_warn _ _) = True"
| "isWarn _ = False"

definition isSetupEvent :: "event \<Rightarrow> bool" where
  "isSetupEvent ev = (ev = ReadBlueprint \<or> ev = ConnectLucid)"

text \<open>The calls made of the ledger client, and among them those that concern a transaction.\<close>

definition isLedgerCall :: "event \<Rightarrow> bool" where
  "isLedgerCall ev = (isQuery ev \<or> isBuild ev \<or> isSign ev \<or> isSubmit ev)"

definition isTxCall :: "event \<Rightarrow> bool" where
  "isTxCall ev = (isBuild ev \<or> isSign ev \<or> isSubmit ev)"

definition ledgerCalls :: "event list \<times> cache \<times> (error + 'a) \<Rightarrow> event list" where
  "ledgerCalls r = filter isLedgerCall (trace r)"

text \<open>The mint request and the outputs among the steps of a transaction.\<close>

fun mintOf :: "step \<Rightarrow> assets option" where
  "mintOf (MintAssets a _) = Some a"
| "mintOf _ = None"

fun isOutput :: "step \<Rightarrow> bool" where
  "isOutput (PayToContract _ _ _) = True"
| "isOutput _ = False"

fun stepsOf :: "event \<Rightarrow> step list option" where
  "stepsOf (TxComplete steps) = Some steps"
| "stepsOf _ = None"

text \<open>The one transaction that a list of events asks the builder for, if it is exactly one;
  and the one mint request among the steps of a transaction.\<close>

definition onlyBuild :: "event list \<Rightarrow> step list option" where
  "onlyBuild t = (case List.map_filter stepsOf t of [steps] \<Rightarrow> Some steps | _ \<Rightarrow> None)"

definition theBuild :: "event list \<times> cache \<times> (error + 'a) \<Rightarrow> step list option" where
  "theBuild r = onlyBuild (trace r)"

definition theMint :: "step list \<Rightarrow> assets option" where
  "theMint steps = (case List.map_filter mintOf steps of [a] \<Rightarrow> Some a | _ \<Rightarrow> None)"

text \<open>
  Building, signing and submitting the steps of one transaction: the calls made and the
  end, which is the exception of the first call that fails or the transaction hash.
\<close>

definition buildSignSubmit :: "world \<Rightarrow> step list \<Rightarrow> event list \<times> (error + string)" where
  "buildSignSubmit W steps =
     (case complete W steps of
        Inl e \<Rightarrow> ([TxComplete steps], Inl e)
      | Inr tx \<Rightarrow>
          (case sign W tx of
             Inl e \<Rightarrow> ([TxComplete steps, TxSign tx], Inl e)
           | Inr stx \<Rightarrow> ([TxComplete steps, TxSign tx, TxSubmit stx], submit W stx)))"

text \<open>\<open>String.prototype.includes\<close>.\<close>

primrec String_includes :: "string \<Rightarrow> string \<Rightarrow> bool" where
  "String_includes [] part = (part = [])"
| "String_includes (c # cs) part =
     (take (length part) (c # cs) = part \<or> String_includes cs part)"

section \<open>Reading an asset name back\<close>

text \<open>The value of a hex digit of either case, the bytes that a hex string denotes, and the
  three parts of an asset name: tag byte, level byte and owner key hash.\<close>

definition hexValue :: "char \<Rightarrow> nat option" where
  "hexValue c =
     (let n = (of_char c :: nat)
      in if 48 \<le> n \<and> n \<le> 57 then Some (n - 48)
         else if 97 \<le> n \<and> n \<le> 102 then Some (n - 87)
         else if 65 \<le> n \<and> n \<le> 70 then Some (n - 55)
         else None)"

fun bytesOfHex :: "string \<Rightarrow> nat list option" where
  "bytesOfHex [] = Some []"
| "bytesOfHex [a] = None"
| "bytesOfHex (a # b # rest) =
     (case (hexValue a, hexValue b, bytesOfHex rest) of
        (Some h, Some l, Some bs) \<Rightarrow> Some ((16 * h + l) # bs)
      | _ \<Rightarrow> None)"

definition decodeBadgeAssetName :: "string \<Rightarrow> (nat \<times> nat \<times> nat list) option" where
  "decodeBadgeAssetName name =
     (case bytesOfHex name of
        Some (tag # lvl # owner) \<Rightarrow> Some (tag, lvl, owner)
      | _ \<Rightarrow> None)"

section \<open>Properties of computations\<close>

text \<open>A computation that leaves the cache alone and makes no transaction call.\<close>

definition quiet :: "'a io \<Rightarrow> bool" where
  "quiet m = (\<forall>c. fst (snd (m c)) = c \<and> filter isTxCall (fst (m c)) = [])"

text \<open>The result of a run ends as its build, sign and submit ended.\<close>

fun endsAs :: "error + string \<Rightarrow> error + mint_result \<Rightarrow> bool" where
  "endsAs (Inl e) r = (r = Inl e)"
| "endsAs (Inr h) r = (\<exists>res. r = Inr res \<and> res_txHash res = h)"

text \<open>A computation that leaves the cache alone and either fails without a transaction call,
  or makes the calls of one build, sign and submit and ends as they end.\<close>

definition settles :: "world \<Rightarrow> mint_result io \<Rightarrow> bool" where
  "settles W m = (\<forall>c. fst (snd (m c)) = c \<and>
     ((filter isTxCall (fst (m c)) = [] \<and> (\<exists>e. snd (snd (m c)) = Inl e))
      \<or> (\<exists>steps. filter isTxCall (fst (m c)) = fst (buildSignSubmit W steps)
            \<and> endsAs (snd (buildSignSubmit W steps)) (snd (snd (m c))))))"


section \<open>A sample environment\<close>

text \<open>One concrete library, blueprint and ledger, on which the statements below are run:
  a test key whose hash is \<open>sampleOwner\<close>, a blueprint with both scripts, a data format that
  writes a datum out as readable text, and a ledger that holds one matching output and
  accepts every transaction.\<close>

definition sampleOwner :: string where
  "sampleOwner = ''00112233445566778899aabbccddeeff00112233445566778899aabb''"

definition samplePolicyId :: string where
  "samplePolicyId = ''c0ffee00c0ffee00c0ffee00c0ffee00c0ffee00c0ffee00c0ffee00''"

fun sampleCbor :: "data \<Rightarrow> string" where
  "sampleCbor (DString s) = ''h{'' @ s @ ''}''"
| "sampleCbor (DBigInt i) = ''i{'' @ showInt i @ ''}''"
| "sampleCbor (Constr n fs) = ''c'' @ showNat n @ ''['' @ concat (map sampleCbor fs) @ '']''"

definition sampleLib :: lib where
  "sampleLib =
     \<lparr>Data_to = (\<lambda>d. Inr (sampleCbor d)),
      mintingPolicyToId = (\<lambda>s. Inr samplePolicyId),
      toUnit = (\<lambda>policyId name. Inr (policyId @ name)),
      validatorToAddress = (\<lambda>network s. Inr ''addr_test1holder''),
      Buffer_hex_to_utf8 = (\<lambda>h. ''Y'')\<rparr>"

definition sampleBlueprint :: blueprint where
  "sampleBlueprint =
     \<lparr>preamble = Some \<lparr>plutusVersion = Some ''v3''\<rparr>,
      validators = Some
        [\<lparr>title = Some ''badge_holder.badge_holder.spend'', compiledCode = Some ''5901aa'',
          hash = None\<rparr>,
         \<lparr>title = Some ''badge_mint.badge_mint.mint'', compiledCode = Some ''5902bb'',
          hash = None\<rparr>]\<rparr>"

definition sampleWorld :: world where
  "sampleWorld =
     \<lparr>BLOCKFROST_PROJECT_ID = Some ''preprodTestProject'',
      CARDANO_SIGNING_KEY = Some ''ed25519_sk1test'',
      CARDANO_NETWORK = ''Preprod'',
      paymentKeyHash = Inr \<lparr>to_hex = Some sampleOwner, to_bytes = None\<rparr>,
      readBlueprint = Inr sampleBlueprint,
      connectLucid = Inr (),
      utxosAtWithUnit = (\<lambda>address u. Inr [UTxO ''aa01'' 0]),
      complete = (\<lambda>steps. Inr ''tx-body''),
      sign = (\<lambda>t. Inr ''tx-signed''),
      submit = (\<lambda>t. Inr ''txhash01'')\<rparr>"

definition coldCache :: cache where
  "coldCache = \<lparr>blueprintPromise = None, lucidPromise = None\<rparr>"

text \<open>The cached promises after a first call on the sample environment.\<close>

definition warmCache :: cache where
  "warmCache = \<lparr>blueprintPromise = Some (Inr sampleBlueprint), lucidPromise = Some (Inr ())\<rparr>"

definition request :: "action \<Rightarrow> int \<Rightarrow> mint_args" where
  "request act l = \<lparr>arg_ownerVkhHex = None, arg_level = Integer l, arg_action = Some act\<rparr>"

text \<open>The bytes of \<open>sampleOwner\<close>, and the same key hash as a client may send it: in
  capitals.\<close>

definition sampleOwnerBytes :: "nat list" where
  "sampleOwnerBytes = [0x00, 0x11, 0x22, 0x33, 0x44, 0x55, 0x66, 0x77, 0x88, 0x99, 0xaa, 0xbb,
     0xcc, 0xdd, 0xee, 0xff, 0x00, 0x11, 0x22, 0x33, 0x44, 0x55, 0x66, 0x77, 0x88, 0x99, 0xaa, 0xbb]"

definition sampleHint :: string where
  "sampleHint = ''00112233445566778899AABBCCDDEEFF00112233445566778899AABB''"

text \<open>The unit of the sample badge at a level, and what the set-up computes for it.\<close>

definition sampleUnit :: "string \<Rightarrow> string" where
  "sampleUnit levelHex = samplePolicyId @ ''59'' @ levelHex @ sampleOwner"

definition samplePrepared :: "string \<Rightarrow> int \<Rightarrow> prepared" where
  "samplePrepared levelHex l =
     \<lparr>p_badgeMintPolicy = PlutusV3 ''5902bb'',
      p_badgeHolderValidator = PlutusV3 ''5901aa'',
      p_policyId = samplePolicyId,
      p_assetNameHex = ''59'' @ levelHex @ sampleOwner,
      p_unit = sampleUnit levelHex,
      p_badgeHolderAddress = ''addr_test1holder'',
      p_badgeDatumCbor =
        sampleCbor (Constr 0 [DString sampleOwner, DBigInt l, DString samplePolicyId])\<rparr>"

text \<open>The sample environment without the project id of the ledger provider.\<close>

definition unconfigured :: world where
  "unconfigured = sampleWorld\<lparr>BLOCKFROST_PROJECT_ID := None\<rparr>"

text \<open>The sample ledger without outputs, and the sample builder failing.\<close>

definition emptyLedger :: world where
  "emptyLedger = sampleWorld\<lparr>utxosAtWithUnit := (\<lambda>address u. Inr [])\<rparr>"

definition failingBuilder :: world where
  "failingBuilder = sampleWorld\<lparr>complete := (\<lambda>steps. Inl (Failure ''boom''))\<rparr>"

text \<open>The transactions of the three actions on the sample environment.\<close>

definition sampleInitSteps :: "step list" where
  "sampleInitSteps =
     [AttachMintingPolicy (PlutusV3 ''5902bb''),
      AddSignerKey sampleOwner,
      MintAssets [(sampleUnit ''00'', 1)]
        (sampleCbor (Constr 0 [DString sampleOwner, DBigInt 0])),
      PayToContract ''addr_test1holder''
        (sampleCbor (Constr 0 [DString sampleOwner, DBigInt 0, DString samplePolicyId]))
        [(''lovelace'', 2000000), (sampleUnit ''00'', 1)]]"

definition sampleUpgradeSteps :: "step list" where
  "sampleUpgradeSteps =
     [AttachMintingPolicy (PlutusV3 ''5902bb''),
      AttachSpendingValidator (PlutusV3 ''5901aa''),
      AddSignerKey sampleOwner,
      CollectFrom [UTxO ''aa01'' 0] (sampleCbor (Constr 0 [DBigInt 1])),
      MintAssets [(sampleUnit ''00'', - 1), (sampleUnit ''01'', 1)]
        (sampleCbor (Constr 1 [DString sampleOwner, DBigInt 0, DBigInt 1])),
      PayToContract ''addr_test1holder''
        (sampleCbor (Constr 0 [DString sampleOwner, DBigInt 1, DString samplePolicyId]))
        [(''lovelace'', 2000000), (sampleUnit ''01'', 1)]]"

definition sampleRetireSteps :: "step list" where
  "sampleRetireSteps =
     [AttachMintingPolicy (PlutusV3 ''5902bb''),
      AttachSpendingValidator (PlutusV3 ''5901aa''),
      AddSignerKey sampleOwner,
      CollectFrom [UTxO ''aa01'' 0] (sampleCbor (Constr 1 [])),
      MintAssets [(sampleUnit ''01'', - 1)]
        (sampleCbor (Constr 2 [DString sampleOwner, DBigInt 1]))]"

section \<open>Facts about the identifier codec\<close>

lemma toLowerCaseChar_hex: "isHexChar c \<Longrightarrow> isLowerHexChar (toLowerCaseChar c)"
  by (auto simp: isHexChar_def isLowerHexChar_def toLowerCaseChar_def char_of_def bit_Suc_0_iff)

lemma isLowerHexChar_isHexChar: "isLowerHexChar c \<Longrightarrow> isHexChar c"
  by (auto simp: isLowerHexChar_def isHexChar_def)

lemma isHexChar_not_space: "isHexChar c \<Longrightarrow> \<not> isWhiteSpace c"
  by (auto simp: isHexChar_def isWhiteSpace_def)

lemma isHexChar_not_x: "isHexChar c \<Longrightarrow> c \<noteq> CHR ''x'' \<and> c \<noteq> CHR ''X''"
  by (auto simp: isHexChar_def)

lemma toLowerCase_hex: "list_all isHexChar s \<Longrightarrow> list_all isLowerHexChar (toLowerCase s)"
  by (induction s) (simp_all add: toLowerCase_def toLowerCaseChar_hex)

lemma isHex_toLowerCase: "isHex h \<Longrightarrow> isHex (toLowerCase h)"
  by (cases h) (auto simp: isHex_def toLowerCase_def list_all_iff
        intro: isLowerHexChar_isHexChar toLowerCaseChar_hex)

lemma isHex_lower_digits: "isHex s \<Longrightarrow> list_all isLowerHexChar (toLowerCase s)"
  by (simp add: isHex_def toLowerCase_hex)

lemma dropWhile_blank:
  "list_all isWhiteSpace pre \<Longrightarrow> \<not> isWhiteSpace c \<Longrightarrow>
     dropWhile isWhiteSpace (pre @ c # rest) = c # rest"
  by (simp add: dropWhile_append3 dropWhile_eq_Nil_conv list_all_iff)

lemma trim_core:
  assumes "list_all isWhiteSpace pre" "list_all isWhiteSpace post"
    and "core \<noteq> []" "\<not> isWhiteSpace (hd core)" "\<not> isWhiteSpace (last core)"
  shows "trim (pre @ core @ post) = core"
proof -
  obtain c cs where c: "core = c # cs"
    using assms(3) by (cases core) auto
  obtain ds d where d: "core = ds @ [d]"
    using assms(3) by (cases core rule: rev_cases) auto
  have a: "dropWhile isWhiteSpace (pre @ core @ post) = core @ post"
    using assms(1,4) dropWhile_blank [of pre c "cs @ post"] by (simp add: c)
  have "list_all isWhiteSpace (rev post)"
    using assms(2) by (simp add: list_all_iff)
  then have b: "dropWhile isWhiteSpace (rev post @ rev core) = rev core"
    using assms(5) dropWhile_blank [of "rev post" d "rev ds"] by (simp add: d)
  show ?thesis by (simp add: trim_def a b)
qed

lemma stripHexPrefix_hex: "list_all isHexChar h \<Longrightarrow> stripHexPrefix h = h"
  by (cases h rule: stripHexPrefix.cases) (auto dest: isHexChar_not_x)

text \<open>Whitespace around, an optional prefix of either case, then hex digits.\<close>

lemma normalizeHex_padded:
  assumes ws: "list_all isWhiteSpace pre" "list_all isWhiteSpace post"
    and p: "p = [] \<or> p = ''0x'' \<or> p = ''0X''"
    and h: "isHex h"
  shows "normalizeHex (pre @ p @ h @ post) = toLowerCase h"
proof -
  from h have ne: "h \<noteq> []" and all: "list_all isHexChar h"
    by (simp_all add: isHex_def)
  from ne all have hd_h: "isHexChar (hd h)" and last_h: "isHexChar (last h)"
    by (simp_all add: list_all_iff)
  have zero: "\<not> isWhiteSpace CHR ''0''"
    by (simp add: isWhiteSpace_def)
  have "\<not> isWhiteSpace (hd h)" "\<not> isWhiteSpace (last h)"
    using hd_h last_h by (simp_all add: isHexChar_not_space)
  then have core: "p @ h \<noteq> []" "\<not> isWhiteSpace (hd (p @ h))" "\<not> isWhiteSpace (last (p @ h))"
    using p ne zero by auto
  have "trim (pre @ (p @ h) @ post) = p @ h"
    using ws core by (rule trim_core)
  moreover have "stripHexPrefix (p @ h) = h"
    using p all by (auto simp: stripHexPrefix_hex)
  ultimately show ?thesis
    by (simp add: normalizeHex_def)
qed

lemma normalizeHex_plain: "isHex h \<Longrightarrow> normalizeHex h = toLowerCase h"
  using normalizeHex_padded [of "[]" "[]" "[]" h] by simp

lemma requireHexBytes_Inr:
  "requireHexBytes input n name = Inr r \<longleftrightarrow>
     r = normalizeHex input \<and> isHex r \<and> int (length r) = n * 2"
  by (auto simp: requireHexBytes_def Let_def)

lemma isHexChar_code:
  "isHexChar c \<longleftrightarrow> (48 \<le> (of_char c :: nat) \<and> (of_char c :: nat) \<le> 57)
     \<or> (97 \<le> (of_char c :: nat) \<and> (of_char c :: nat) \<le> 102)
     \<or> (65 \<le> (of_char c :: nat) \<and> (of_char c :: nat) \<le> 70)" (is "?l \<longleftrightarrow> ?r")
proof
  assume ?l then show ?r by (auto simp: isHexChar_def)
next
  assume ?r
  then have "(of_char c :: nat) \<in> {48,49,50,51,52,53,54,55,56,57,97,98,99,100,101,102,65,66,67,68,69,70}"
    by simp arith
  then have "char_of (of_char c :: nat) \<in> char_of ` {48,49,50,51,52,53,54,55,56,57,97,98,99,100,101,102,65,66,67,68,69,70::nat}"
    by (rule imageI)
  then have "c \<in> char_of ` {48,49,50,51,52,53,54,55,56,57,97,98,99,100,101,102,65,66,67,68,69,70::nat}"
    by (simp only: char_of_char)
  then show ?l
    by (simp add: isHexChar_def char_of_def bit_Suc_0_iff)
qed

lemma of_char_toLowerCaseChar:
  "(of_char (toLowerCaseChar c) :: nat) =
     (if (65 \<le> (of_char c :: nat) \<and> (of_char c :: nat) \<le> 90)
         \<or> (192 \<le> (of_char c :: nat) \<and> (of_char c :: nat) \<le> 222 \<and> (of_char c :: nat) \<noteq> 215)
      then of_char c + 32 else of_char c)"
  by (simp add: toLowerCaseChar_def Let_def)

lemma toLowerCaseChar_hex_iff: "isHexChar (toLowerCaseChar c) \<longleftrightarrow> isHexChar c"
  by (simp add: isHexChar_code of_char_toLowerCaseChar)

lemma requireHexBytes_lower:
  assumes "requireHexBytes input n name = Inr r"
  shows "list_all isLowerHexChar r"
proof -
  from assms have "r = normalizeHex input" and "isHex r"
    by (auto simp: requireHexBytes_Inr)
  then have r: "r = toLowerCase (stripHexPrefix (trim input))" and hex: "list_all isHexChar r"
    by (auto simp: normalizeHex_def isHex_def)
  from hex have "list_all isHexChar (stripHexPrefix (trim input))"
    by (simp add: r toLowerCase_def list_all_iff toLowerCaseChar_hex_iff)
  then show ?thesis
    by (simp add: r toLowerCase_hex)
qed

subsection \<open>Bytes of a hex string\<close>

lemma hexDigit_0: "hexDigit 0 = CHR ''0''"
  by (simp add: hexDigit_def)

lemma toString16_byte:
  assumes "n < 256"
  shows "padStart 2 (CHR ''0'') (toString16 n) = [hexDigit (n div 16), hexDigit (n mod 16)]"
proof (cases "n < 16")
  case True
  then show ?thesis
    by (simp add: padStart_def toString16.simps [of n] hexDigit_0)
next
  case False
  moreover have "n div 16 < 16" using assms by simp
  ultimately show ?thesis
    by (simp add: padStart_def toString16.simps [of n] toString16.simps [of "n div 16"])
qed

lemma hexValue_hexDigit: "d < 16 \<Longrightarrow> hexValue (hexDigit d) = Some d"
proof -
  assume "d < 16"
  then have "d \<in> {0,1,2,3,4,5,6,7,8,9,10,11,12,13,14,15}" by simp arith
  then show ?thesis
    by (auto simp: hexValue_def hexDigit_def)
qed

lemma isLowerHexChar_hexDigit: "d < 16 \<Longrightarrow> isLowerHexChar (hexDigit d)"
proof -
  assume "d < 16"
  then have "d \<in> {0,1,2,3,4,5,6,7,8,9,10,11,12,13,14,15}" by simp arith
  then show ?thesis
    by (auto simp: isLowerHexChar_def hexDigit_def)
qed

lemma hexValue_Some_hex: "hexValue c = Some v \<Longrightarrow> isHexChar c"
  by (auto simp: isHexChar_code hexValue_def Let_def split: if_splits)

lemma hexValue_lower: "isHexChar c \<Longrightarrow> hexValue (toLowerCaseChar c) = hexValue c"
  by (auto simp: isHexChar_def hexValue_def toLowerCaseChar_def char_of_def bit_Suc_0_iff)

lemma bytesOfHex_hex:
  "bytesOfHex s = Some bs \<Longrightarrow> list_all isHexChar s \<and> length s = 2 * length bs"
  by (induction s arbitrary: bs rule: bytesOfHex.induct)
     (auto split: option.splits dest: hexValue_Some_hex)

lemma bytesOfHex_lower: "list_all isHexChar s \<Longrightarrow> bytesOfHex (toLowerCase s) = bytesOfHex s"
  by (induction s rule: bytesOfHex.induct)
     (auto simp: toLowerCase_def hexValue_lower split: option.splits)

lemma makeBadgeAssetName_bytes:
  assumes owner: "bytesOfHex owner = Some bs" and len: "length bs = 28"
    and l: "0 \<le> l" "l \<le> 255"
  shows "makeBadgeAssetName owner (Integer l)
           = Inr (''59'' @ [hexDigit (nat l div 16), hexDigit (nat l mod 16)] @ toLowerCase owner)"
    and "bytesOfHex (''59'' @ [hexDigit (nat l div 16), hexDigit (nat l mod 16)] @ toLowerCase owner)
           = Some (0x59 # nat l # bs)"
proof -
  from owner len have hex: "list_all isHexChar owner" and n: "length owner = 56"
    using bytesOfHex_hex [of owner bs] by simp_all
  then have "isHex owner"
    by (auto simp: isHex_def)
  then have "normalizeHex owner = toLowerCase owner" "isHex (toLowerCase owner)"
    by (simp_all add: normalizeHex_plain isHex_toLowerCase)
  then have req: "requireHexBytes owner 28 ''ownerVkhHex'' = Inr (toLowerCase owner)"
    using n by (simp add: requireHexBytes_Inr toLowerCase_def)
  have byte: "nat l < 256" using l by simp
  show "makeBadgeAssetName owner (Integer l)
           = Inr (''59'' @ [hexDigit (nat l div 16), hexDigit (nat l mod 16)] @ toLowerCase owner)"
    using l by (simp add: makeBadgeAssetName_def req toString16_byte [OF byte])
  have d: "nat l div 16 < 16" "nat l mod 16 < 16" using byte by simp_all
  have five: "hexValue CHR ''5'' = Some 5" "hexValue CHR ''9'' = Some 9"
    by (simp_all add: hexValue_def)
  show "bytesOfHex (''59'' @ [hexDigit (nat l div 16), hexDigit (nat l mod 16)] @ toLowerCase owner)
           = Some (0x59 # nat l # bs)"
    using owner by (simp add: five hexValue_hexDigit [OF d(1)] hexValue_hexDigit [OF d(2)]
      bytesOfHex_lower [OF hex])
qed

lemma makeBadgeAssetName_lower:
  assumes "makeBadgeAssetName s lvl = Inr name"
  shows "list_all isLowerHexChar name"
proof -
  from assms obtain cleaned l where c: "requireHexBytes s 28 ''ownerVkhHex'' = Inr cleaned"
    and lvl: "lvl = Integer l" "0 \<le> l" "l \<le> 255"
    and name: "name = ''59'' @ padStart 2 (CHR ''0'') (toString16 (nat l)) @ cleaned"
    by (auto simp: makeBadgeAssetName_def split: sum.splits number.splits if_splits)
  have byte: "nat l < 256" using lvl by simp
  then have d: "nat l div 16 < 16" "nat l mod 16 < 16" by simp_all
  have "list_all isLowerHexChar cleaned"
    using c by (rule requireHexBytes_lower)
  moreover have "isLowerHexChar CHR ''5''" "isLowerHexChar CHR ''9''"
    by (simp_all add: isLowerHexChar_def)
  ultimately show ?thesis
    by (simp add: name toString16_byte [OF byte] isLowerHexChar_hexDigit d)
qed

lemma makeBadgeAssetName_NonInteger: "makeBadgeAssetName owner (NonInteger x) \<noteq> Inr name"
  by (simp add: makeBadgeAssetName_def split: sum.splits)

section \<open>The asset name (C2)\<close>

text \<open>
  Claim C2. For an owner key hash of 28 bytes, written as hex digits of either case, and an
  integer level from 0 to 255, \<open>makeBadgeAssetName\<close> succeeds; the name has 60 hex digits
  and denotes the 30 bytes \<open>0x59\<close>, level, owner hash; tag, level and owner are read back
  from it; and no other pair of owner hash and level has the same name.
\<close>

theorem makeBadgeAssetName_injective_roundtrip:
  assumes "bytesOfHex owner = Some bs" and "length bs = 28" and "0 \<le> l" and "l \<le> 255"
  shows "\<exists>name. makeBadgeAssetName owner (Integer l) = Inr name
           \<and> length name = 60
           \<and> bytesOfHex name = Some (0x59 # nat l # bs)
           \<and> decodeBadgeAssetName name = Some (0x59, nat l, bs)
           \<and> (\<forall>owner' bs' l'.
                 bytesOfHex owner' = Some bs' \<and> length bs' = 28 \<and> 0 \<le> l' \<and> l' \<le> 255
                   \<and> makeBadgeAssetName owner' (Integer l') = Inr name
                 \<longrightarrow> bs' = bs \<and> l' = l)"
proof -
  let ?name = "''59'' @ [hexDigit (nat l div 16), hexDigit (nat l mod 16)] @ toLowerCase owner"
  have mk: "makeBadgeAssetName owner (Integer l) = Inr ?name"
    and bts: "bytesOfHex ?name = Some (0x59 # nat l # bs)"
    using assms by (rule makeBadgeAssetName_bytes)+
  have len: "length ?name = 60"
    using bytesOfHex_hex [OF bts] assms(2) by simp
  have dec: "decodeBadgeAssetName ?name = Some (0x59, nat l, bs)"
    unfolding decodeBadgeAssetName_def by (simp only: bts) simp
  have inj: "bs' = bs \<and> l' = l"
    if other: "bytesOfHex owner' = Some bs'" "length bs' = 28" "0 \<le> l'" "l' \<le> 255"
      "makeBadgeAssetName owner' (Integer l') = Inr ?name" for owner' bs' l'
  proof -
    let ?name' = "''59'' @ [hexDigit (nat l' div 16), hexDigit (nat l' mod 16)] @ toLowerCase owner'"
    have "makeBadgeAssetName owner' (Integer l') = Inr ?name'"
      and bts': "bytesOfHex ?name' = Some (0x59 # nat l' # bs')"
      using other(1-4) by (rule makeBadgeAssetName_bytes)+
    with other(5) have "?name' = ?name" by simp
    with bts bts' have "Some (0x59 # nat l' # bs') = Some (0x59 # nat l # bs)"
      by (simp only:)
    with other(3) assms(3) show ?thesis by auto
  qed
  from mk len bts dec inj show ?thesis by blast
qed

lemma bytesOfHex_sampleOwner: "bytesOfHex sampleOwner = Some sampleOwnerBytes"
  by code_simp

text \<open>The statement of C2 at the sample key hash and level 3.\<close>

theorem makeBadgeAssetName_injective_roundtrip_witness:
  "\<exists>name. makeBadgeAssetName sampleOwner (Integer 3) = Inr name
     \<and> length name = 60
     \<and> bytesOfHex name = Some (0x59 # nat 3 # sampleOwnerBytes)
     \<and> decodeBadgeAssetName name = Some (0x59, nat 3, sampleOwnerBytes)
     \<and> (\<forall>owner' bs' l'.
           bytesOfHex owner' = Some bs' \<and> length bs' = 28 \<and> 0 \<le> l' \<and> l' \<le> 255
             \<and> makeBadgeAssetName owner' (Integer l') = Inr name
           \<longrightarrow> bs' = sampleOwnerBytes \<and> l' = 3)"
proof -
  have "length sampleOwnerBytes = 28"
    by (simp add: sampleOwnerBytes_def)
  then show ?thesis
    using makeBadgeAssetName_injective_roundtrip [OF bytesOfHex_sampleOwner, of 3] by simp
qed

section \<open>The hex validator (C7, C10)\<close>

text \<open>
  Claim C7. \<open>requireHexBytes\<close> is called with the expected length 28 only. For every
  expected length of at least one byte it rejects exactly the inputs whose cleaned form
  (\<open>normalizeHex\<close>: trimmed, without the prefix \<open>0x\<close>, in lower case) has a length other
  than twice the expected number of bytes or holds a character that is not a hex digit;
  the error names the field, the expected length and the input as given. An accepted
  input comes back as lower-case hex digits; hex digits of either case are accepted with
  and without the prefix. The lengths in the message are in decimal digits, as JavaScript
  prints them below \<open>10^21\<close>.
\<close>

theorem requireHexBytes_rejects_exactly:
  "(1 \<le> n \<and> n * 2 < 10 ^ 21 \<longrightarrow>
      requireHexBytes input n name =
        (if int (length (normalizeHex input)) \<noteq> n * 2
            \<or> (\<exists>c \<in> set (normalizeHex input). \<not> isHexChar c)
         then Inl (Error (name @ '' must be '' @ showInt n @ '' bytes hex (length ''
                @ showInt (n * 2) @ ''), got '' @ [CHR 0x27] @ input @ [CHR 0x27]))
         else Inr (normalizeHex input)))
   \<and> (\<forall>r. requireHexBytes input n name = Inr r \<longrightarrow> list_all isLowerHexChar r)
   \<and> (\<forall>h. isHex h \<and> int (length h) = n * 2 \<longrightarrow>
          requireHexBytes h n name = Inr (toLowerCase h)
          \<and> requireHexBytes (''0x'' @ h) n name = Inr (toLowerCase h))"
proof (intro conjI allI impI)
  assume "1 \<le> n \<and> n * 2 < 10 ^ 21"
  then have "normalizeHex input = [] \<longrightarrow> int (length (normalizeHex input)) \<noteq> n * 2"
    by simp
  then show "requireHexBytes input n name =
        (if int (length (normalizeHex input)) \<noteq> n * 2
            \<or> (\<exists>c \<in> set (normalizeHex input). \<not> isHexChar c)
         then Inl (Error (name @ '' must be '' @ showInt n @ '' bytes hex (length ''
                @ showInt (n * 2) @ ''), got '' @ [CHR 0x27] @ input @ [CHR 0x27]))
         else Inr (normalizeHex input))"
    by (auto simp: requireHexBytes_def Let_def isHex_def list_all_iff)
next
  fix r assume "requireHexBytes input n name = Inr r"
  then show "list_all isLowerHexChar r" by (rule requireHexBytes_lower)
next
  fix h assume h: "isHex h \<and> int (length h) = n * 2"
  then have "normalizeHex h = toLowerCase h"
    by (simp add: normalizeHex_plain)
  with h show "requireHexBytes h n name = Inr (toLowerCase h)"
    by (simp add: requireHexBytes_Inr isHex_toLowerCase) (simp add: toLowerCase_def)
next
  fix h assume h: "isHex h \<and> int (length h) = n * 2"
  then have "normalizeHex (''0x'' @ h) = toLowerCase h"
    using normalizeHex_padded [of "[]" "[]" "''0x''" h] by simp
  with h show "requireHexBytes (''0x'' @ h) n name = Inr (toLowerCase h)"
    by (simp add: requireHexBytes_Inr isHex_toLowerCase) (simp add: toLowerCase_def)
qed

text \<open>The statement of C7 for 28 bytes: the sample key hash in capitals, with and without
  the prefix, an input that is too short and one with a character that is no hex digit.\<close>

theorem requireHexBytes_rejects_exactly_witness:
  "isHex sampleHint \<and> int (length sampleHint) = 28 * 2
   \<and> requireHexBytes sampleHint 28 ''ownerVkhHex'' = Inr sampleOwner
   \<and> requireHexBytes (''0x'' @ sampleHint) 28 ''ownerVkhHex'' = Inr sampleOwner
   \<and> list_all isLowerHexChar sampleOwner
   \<and> requireHexBytes ''0xA'' 28 ''ownerVkhHex''
       = Inl (Error (''ownerVkhHex must be 28 bytes hex (length 56), got ''
           @ [CHR 0x27] @ ''0xA'' @ [CHR 0x27]))
   \<and> requireHexBytes (''zz'' @ drop 2 sampleOwner) 28 ''ownerVkhHex''
       = Inl (Error (''ownerVkhHex must be 28 bytes hex (length 56), got ''
           @ [CHR 0x27] @ ''zz'' @ drop 2 sampleOwner @ [CHR 0x27]))"
proof -
  have h: "isHex sampleHint \<and> int (length sampleHint) = 28 * 2"
    by code_simp
  have low: "toLowerCase sampleHint = sampleOwner"
    by code_simp
  have n: "normalizeHex ''0xA'' = ''a''" "showInt 28 = ''28''" "showInt 56 = ''56''"
    by code_simp+
  have range: "(1::int) \<le> 28 \<and> (28::int) * 2 < 10 ^ 21"
    by simp
  note ab = requireHexBytes_rejects_exactly [of 28 sampleHint "''ownerVkhHex''"]
  from ab have "\<forall>h. isHex h \<and> int (length h) = 28 * 2 \<longrightarrow>
          requireHexBytes h 28 ''ownerVkhHex'' = Inr (toLowerCase h)
          \<and> requireHexBytes (''0x'' @ h) 28 ''ownerVkhHex'' = Inr (toLowerCase h)"
    by blast
  with h have a: "requireHexBytes sampleHint 28 ''ownerVkhHex'' = Inr sampleOwner"
    "requireHexBytes (''0x'' @ sampleHint) 28 ''ownerVkhHex'' = Inr sampleOwner"
    unfolding low [symmetric] by blast+
  from ab have "\<forall>r. requireHexBytes sampleHint 28 ''ownerVkhHex'' = Inr r \<longrightarrow> list_all isLowerHexChar r"
    by blast
  with a(1) have b: "list_all isLowerHexChar sampleOwner" by blast
  from requireHexBytes_rejects_exactly [of 28 "''0xA''" "''ownerVkhHex''"] range
  have "requireHexBytes ''0xA'' 28 ''ownerVkhHex'' =
        (if int (length (normalizeHex ''0xA'')) \<noteq> 28 * 2
            \<or> (\<exists>c \<in> set (normalizeHex ''0xA''). \<not> isHexChar c)
         then Inl (Error (''ownerVkhHex'' @ '' must be '' @ showInt 28 @ '' bytes hex (length ''
                @ showInt (28 * 2) @ ''), got '' @ [CHR 0x27] @ ''0xA'' @ [CHR 0x27]))
         else Inr (normalizeHex ''0xA''))"
    by blast
  then have c: "requireHexBytes ''0xA'' 28 ''ownerVkhHex''
       = Inl (Error (''ownerVkhHex must be 28 bytes hex (length 56), got ''
           @ [CHR 0x27] @ ''0xA'' @ [CHR 0x27]))"
    by (simp add: n)
  have bad: "int (length (normalizeHex (''zz'' @ drop 2 sampleOwner))) \<noteq> 28 * 2
            \<or> (\<exists>c \<in> set (normalizeHex (''zz'' @ drop 2 sampleOwner)). \<not> isHexChar c)"
    by code_simp
  from requireHexBytes_rejects_exactly [of 28 "''zz'' @ drop 2 sampleOwner" "''ownerVkhHex''"] range
  have e: "requireHexBytes (''zz'' @ drop 2 sampleOwner) 28 ''ownerVkhHex'' =
        (if int (length (normalizeHex (''zz'' @ drop 2 sampleOwner))) \<noteq> 28 * 2
            \<or> (\<exists>c \<in> set (normalizeHex (''zz'' @ drop 2 sampleOwner)). \<not> isHexChar c)
         then Inl (Error (''ownerVkhHex'' @ '' must be '' @ showInt 28 @ '' bytes hex (length ''
                @ showInt (28 * 2) @ ''), got '' @ [CHR 0x27] @ (''zz'' @ drop 2 sampleOwner) @ [CHR 0x27]))
         else Inr (normalizeHex (''zz'' @ drop 2 sampleOwner)))"
    by blast
  have "requireHexBytes (''zz'' @ drop 2 sampleOwner) 28 ''ownerVkhHex'' =
         Inl (Error (''ownerVkhHex'' @ '' must be '' @ showInt 28 @ '' bytes hex (length ''
                @ showInt (28 * 2) @ ''), got '' @ [CHR 0x27] @ (''zz'' @ drop 2 sampleOwner) @ [CHR 0x27]))"
    by (simp only: e if_P [OF bad])
  then have d: "requireHexBytes (''zz'' @ drop 2 sampleOwner) 28 ''ownerVkhHex''
       = Inl (Error (''ownerVkhHex must be 28 bytes hex (length 56), got ''
           @ [CHR 0x27] @ ''zz'' @ drop 2 sampleOwner @ [CHR 0x27]))"
    by (simp add: n)
  from h a b c d show ?thesis by simp
qed

text \<open>
  Claim C10. Whitespace around the input and a prefix \<open>0x\<close> or \<open>0X\<close> are accepted: an
  input that is valid once trimmed and stripped of the prefix is accepted and returned
  trimmed, stripped and in lower case; so every asset name that \<open>makeBadgeAssetName\<close>
  returns consists of lower-case hex digits.
\<close>

theorem requireHexBytes_accepts_padding:
  "(list_all isWhiteSpace pre \<and> list_all isWhiteSpace post
      \<and> (p = [] \<or> p = ''0x'' \<or> p = ''0X'') \<and> isHex h \<and> int (length h) = n * 2
      \<longrightarrow> requireHexBytes (pre @ p @ h @ post) n name = Inr (toLowerCase h)
          \<and> list_all isLowerHexChar (toLowerCase h))
   \<and> (isHex (stripHexPrefix (trim s)) \<and> int (length (stripHexPrefix (trim s))) = n * 2
      \<longrightarrow> requireHexBytes s n name = Inr (toLowerCase (stripHexPrefix (trim s))))
   \<and> (list_all isWhiteSpace pre \<and> list_all isWhiteSpace post
      \<and> (p = [] \<or> p = ''0x'' \<or> p = ''0X'') \<and> isHex h \<and> length h = 56 \<and> 0 \<le> l \<and> l \<le> 255
      \<longrightarrow> makeBadgeAssetName (pre @ p @ h @ post) (Integer l)
            = Inr (''59'' @ [hexDigit (nat l div 16), hexDigit (nat l mod 16)] @ toLowerCase h))
   \<and> (\<forall>lvl assetName. makeBadgeAssetName s lvl = Inr assetName
      \<longrightarrow> list_all isLowerHexChar assetName)"
proof (intro conjI allI impI)
  assume a: "list_all isWhiteSpace pre \<and> list_all isWhiteSpace post
      \<and> (p = [] \<or> p = ''0x'' \<or> p = ''0X'') \<and> isHex h \<and> int (length h) = n * 2"
  then have "normalizeHex (pre @ p @ h @ post) = toLowerCase h"
    by (simp add: normalizeHex_padded)
  with a show "requireHexBytes (pre @ p @ h @ post) n name = Inr (toLowerCase h)"
    by (simp add: requireHexBytes_Inr isHex_toLowerCase) (simp add: toLowerCase_def)
  from a show "list_all isLowerHexChar (toLowerCase h)"
    by (simp add: isHex_lower_digits)
next
  assume a: "isHex (stripHexPrefix (trim s)) \<and> int (length (stripHexPrefix (trim s))) = n * 2"
  then have "isHex (normalizeHex s)" "int (length (normalizeHex s)) = n * 2"
    by (simp_all add: normalizeHex_def isHex_toLowerCase) (simp add: toLowerCase_def)
  then show "requireHexBytes s n name = Inr (toLowerCase (stripHexPrefix (trim s)))"
    by (simp add: requireHexBytes_Inr) (simp add: normalizeHex_def)
next
  assume a: "list_all isWhiteSpace pre \<and> list_all isWhiteSpace post
      \<and> (p = [] \<or> p = ''0x'' \<or> p = ''0X'') \<and> isHex h \<and> length h = 56 \<and> 0 \<le> l \<and> l \<le> 255"
  then have "normalizeHex (pre @ p @ h @ post) = toLowerCase h"
    by (simp add: normalizeHex_padded)
  with a have req: "requireHexBytes (pre @ p @ h @ post) 28 ''ownerVkhHex'' = Inr (toLowerCase h)"
    by (simp add: requireHexBytes_Inr isHex_toLowerCase) (simp add: toLowerCase_def)
  have byte: "nat l < 256" using a by auto
  show "makeBadgeAssetName (pre @ p @ h @ post) (Integer l)
            = Inr (''59'' @ [hexDigit (nat l div 16), hexDigit (nat l mod 16)] @ toLowerCase h)"
    using a by (simp add: makeBadgeAssetName_def req toString16_byte [OF byte])
next
  fix lvl assetName
  assume "makeBadgeAssetName s lvl = Inr assetName"
  then show "list_all isLowerHexChar assetName"
    by (rule makeBadgeAssetName_lower)
qed

text \<open>The statement of C10 at the sample key hash in capitals, with blanks and \<open>0X\<close>.\<close>

theorem requireHexBytes_accepts_padding_witness:
  "list_all isWhiteSpace [CHR 0x20, CHR 0x09] \<and> list_all isWhiteSpace [CHR 0x0A]
   \<and> isHex sampleHint \<and> length sampleHint = 56
   \<and> requireHexBytes ([CHR 0x20, CHR 0x09] @ ''0X'' @ sampleHint @ [CHR 0x0A]) 28 ''ownerVkhHex''
       = Inr sampleOwner
   \<and> makeBadgeAssetName ([CHR 0x20, CHR 0x09] @ ''0X'' @ sampleHint @ [CHR 0x0A]) (Integer 4)
       = Inr (''5904'' @ sampleOwner)
   \<and> list_all isLowerHexChar (''5904'' @ sampleOwner)"
proof -
  have ws: "list_all isWhiteSpace [CHR 0x20, CHR 0x09]" "list_all isWhiteSpace [CHR 0x0A]"
    by (simp_all add: isWhiteSpace_def)
  have hex: "isHex sampleHint" "length sampleHint = 56"
    by code_simp+
  have low: "toLowerCase sampleHint = sampleOwner"
    by code_simp
  have dig: "hexDigit 0 = CHR ''0''" "hexDigit 4 = CHR ''4''"
    by (simp_all add: hexDigit_def)
  note t = requireHexBytes_accepts_padding [of "[CHR 0x20, CHR 0x09]" "[CHR 0x0A]" "''0X''"
      sampleHint 28 "''ownerVkhHex''"
      "[CHR 0x20, CHR 0x09] @ ''0X'' @ sampleHint @ [CHR 0x0A]" 4]
  from t ws hex have a: "requireHexBytes ([CHR 0x20, CHR 0x09] @ ''0X'' @ sampleHint @ [CHR 0x0A]) 28
       ''ownerVkhHex'' = Inr sampleOwner"
    by (simp add: low)
  from t ws hex have b: "makeBadgeAssetName ([CHR 0x20, CHR 0x09] @ ''0X'' @ sampleHint @ [CHR 0x0A])
       (Integer 4) = Inr (''5904'' @ sampleOwner)"
    by (simp add: low dig)
  from t have "\<forall>lvl assetName.
      makeBadgeAssetName ([CHR 0x20, CHR 0x09] @ ''0X'' @ sampleHint @ [CHR 0x0A]) lvl = Inr assetName
      \<longrightarrow> list_all isLowerHexChar assetName"
    by blast
  with b have c: "list_all isLowerHexChar (''5904'' @ sampleOwner)"
    by blast
  from ws hex a b c show ?thesis by simp
qed

section \<open>Running the combinators\<close>

lemma io_bind_of:
  "io_bind (io_of r) f c = (case r of Inl e \<Rightarrow> ([], c, Inl e) | Inr x \<Rightarrow> f x c)"
  by (cases r; cases "f (projr r) c") (simp_all add: io_bind_def io_of_def)

lemma io_bind_return: "io_bind (io_return x) f c = f x c"
  by (cases "f x c") (simp add: io_bind_def io_return_def)

lemma io_bind_throw: "io_bind (io_throw e) f c = ([], c, Inl e)"
  by (simp add: io_bind_def io_throw_def)

lemma io_bind_emit:
  "io_bind (io_emit ev) f c = (case f () c of (t, c', r) \<Rightarrow> (ev # t, c', r))"
  by (simp add: io_bind_def io_emit_def)

lemma io_bind_call:
  "io_bind (io_call ev r) f c =
     (case r of
        Inl e \<Rightarrow> ([ev], c, Inl e)
      | Inr x \<Rightarrow> (case f x c of (t, c', r') \<Rightarrow> (ev # t, c', r')))"
  by (cases r) (simp_all add: io_bind_def io_call_def)

lemma io_throw_apply: "io_throw e c = ([], c, Inl e)"
  by (simp add: io_throw_def)

lemma io_return_apply: "io_return x c = ([], c, Inr x)"
  by (simp add: io_return_def)

lemmas io_simps = io_bind_of io_bind_return io_bind_throw io_bind_emit io_bind_call
  io_throw_apply io_return_apply

lemmas io_defs = io_bind_def io_of_def io_return_def io_throw_def io_emit_def io_call_def
  io_catch_def

text \<open>The three calls that end every branch: build, sign, submit.\<close>

lemma build_sign_submit_run:
  "io_bind (io_call (TxComplete steps) (complete W steps)) (\<lambda>tx.
   io_bind (io_call (TxSign tx) (sign W tx)) (\<lambda>stx.
   io_bind (io_call (TxSubmit stx) (submit W stx)) (\<lambda>txHash.
   io_return (f txHash)))) c =
   (fst (buildSignSubmit W steps), c, map_sum id f (snd (buildSignSubmit W steps)))"
  by (simp add: io_simps buildSignSubmit_def split: sum.splits)

lemma io_bind_query:
  "io_bind (io_call (UtxosAtWithUnit address u) r) f c =
     (case r of
        Inl e \<Rightarrow> ([UtxosAtWithUnit address u], c, Inl e)
      | Inr x \<Rightarrow> (case f x c of (t, c', r') \<Rightarrow> (UtxosAtWithUnit address u # t, c', r')))"
  by (rule io_bind_call)

lemmas try_simps = io_bind_of io_bind_return io_bind_throw io_throw_apply io_return_apply
  io_bind_query build_sign_submit_run

lemma filter_within: "(\<And>x. P x \<Longrightarrow> Q x) \<Longrightarrow> filter P (filter Q xs) = filter P xs"
  by (induction xs) auto

lemma filter_nonempty: "x \<in> set xs \<Longrightarrow> P x \<Longrightarrow> filter P xs \<noteq> []"
  by (auto simp: filter_empty_conv)

section \<open>The call as a whole\<close>

lemma loadBlueprint_trace: "loadBlueprint W c = (t, c', r) \<Longrightarrow> list_all isSetupEvent t"
  by (auto simp: loadBlueprint_def isSetupEvent_def split: option.splits)

lemma getLucid_trace: "getLucid W c = (t, c', r) \<Longrightarrow> list_all isSetupEvent t"
  by (auto simp: getLucid_def isSetupEvent_def split: option.splits sum.splits)

lemma mintBadge_setup_trace:
  assumes "mintBadge_setup L W owner lvl c = (t, c', r)"
  shows "list_all isSetupEvent t"
  using assms unfolding mintBadge_setup_def
  by (auto simp: io_defs Let_def dest!: loadBlueprint_trace getLucid_trace
      split: if_splits sum.splits prod.splits)

text \<open>The events of a set-up that succeeds: what is not cached is read and connected.\<close>

lemma loadBlueprint_run:
  "loadBlueprint W c = (t, c', r) \<Longrightarrow>
     t = (if blueprintPromise c = None then [ReadBlueprint] else [])
     \<and> lucidPromise c' = lucidPromise c"
  by (auto simp: loadBlueprint_def split: option.splits)

lemma getLucid_run:
  "getLucid W c = (t, c', Inr u) \<Longrightarrow>
     t = (if lucidPromise c = None then [ConnectLucid] else [])"
  by (auto simp: getLucid_def split: option.splits sum.splits)

lemma mintBadge_setup_events:
  assumes "mintBadge_setup L W owner lvl c = (ts, c1, Inr p)"
  shows "ts = (if blueprintPromise c = None then [ReadBlueprint] else [])
              @ (if lucidPromise c = None then [ConnectLucid] else [])"
  using assms unfolding mintBadge_setup_def
  by (auto simp: io_defs Let_def dest!: loadBlueprint_run getLucid_run
      split: if_splits sum.splits prod.splits)

lemma mintBadge_setup_Inr:
  assumes "mintBadge_setup L W owner lvl c = (t, c', Inr p)"
  shows "makeBadgeAssetName owner lvl = Inr (p_assetNameHex p)"
    and "toUnit L (p_policyId p) (p_assetNameHex p) = Inr (p_unit p)"
    and "encodeBadgeDatum L owner lvl (p_policyId p) = Inr (p_badgeDatumCbor p)"
    and "mintingPolicyToId L (p_badgeMintPolicy p) = Inr (p_policyId p)"
    and "validatorToAddress L (CARDANO_NETWORK W) (p_badgeHolderValidator p)
           = Inr (p_badgeHolderAddress p)"
  using assms unfolding mintBadge_setup_def
  by (auto simp: io_defs Let_def split: if_splits sum.splits prod.splits)

lemma mintBadge_ownerHint_run:
  "\<exists>tw. mintBadge_ownerHint h owner c = (tw, c, Inr ()) \<and> list_all isWarn tw \<and> length tw \<le> 1"
  by (auto simp: mintBadge_ownerHint_def io_defs split: option.splits sum.splits)

text \<open>
  A call, step by step: the key hash, the warnings about the hint, the log record, the
  set-up, the \<open>try\<close> block, and the log record of its failure.
\<close>

lemma mintBadge_eq:
  "mintBadge L W a c =
     (case getBackendPaymentKeyHashHex W of
        Inl e \<Rightarrow> ([], c, Inl e)
      | Inr owner \<Rightarrow>
          (case mintBadge_ownerHint (arg_ownerVkhHex a) owner c of
             (tw, _, _) \<Rightarrow>
               (case mintBadge_setup L W owner (arg_level a) c of
                  (ts, c1, Inl e) \<Rightarrow> (tw @ infoEvent owner a # ts, c1, Inl e)
                | (ts, c1, Inr p) \<Rightarrow>
                    (case arg_level a of
                       NonInteger s \<Rightarrow>
                         (tw @ infoEvent owner a # ts, c1,
                          Inl (Error (''level must fit in 1 byte (0..255), got '' @ [CHR 0x27] @ s
                            @ [CHR 0x27])))
                     | Integer l \<Rightarrow>
                         (case mintBadge_try L W owner l (theAction a) p c1 of
                            (tt, c2, Inl e) \<Rightarrow>
                              (tw @ infoEvent owner a # ts @ tt @ [Logger_error e ''Badge mint failed''],
                               c2, Inl e)
                          | (tt, c2, Inr res) \<Rightarrow> (tw @ infoEvent owner a # ts @ tt, c2, Inr res))))))"
proof (cases "getBackendPaymentKeyHashHex W")
  case (Inl e)
  then show ?thesis by (simp add: mintBadge_def Let_def io_simps)
next
  case (Inr owner)
  obtain tw where tw: "mintBadge_ownerHint (arg_ownerVkhHex a) owner c = (tw, c, Inr ())"
    using mintBadge_ownerHint_run by blast
  obtain ts c1 rs where s: "mintBadge_setup L W owner (arg_level a) c = (ts, c1, rs)"
    by (cases "mintBadge_setup L W owner (arg_level a) c") auto
  show ?thesis
  proof (cases rs)
    case e: (Inl e)
    show ?thesis
      by (simp add: mintBadge_def Let_def Inr io_bind_of)
         (simp add: io_bind_def tw s e io_emit_def infoEvent_def theAction_def)
  next
    case p: (Inr p)
    show ?thesis
    proof (cases "arg_level a")
      case (NonInteger x)
      then show ?thesis
        by (simp add: mintBadge_def Let_def Inr io_bind_of)
           (simp add: io_bind_def tw s [unfolded NonInteger] p io_emit_def io_throw_def
              infoEvent_def theAction_def)
    next
      case (Integer l)
      obtain tt c2 r where t: "mintBadge_try L W owner l (theAction a) p c1 = (tt, c2, r)"
        by (cases "mintBadge_try L W owner l (theAction a) p c1") auto
      from Integer show ?thesis
        by (simp add: mintBadge_def Let_def Inr io_bind_of)
           (cases r; simp add: io_bind_def io_catch_def tw s [unfolded Integer] p t [unfolded theAction_def]
              io_emit_def io_throw_def infoEvent_def theAction_def)
    qed
  qed
qed

lemma quiet_warn: "list_all isWarn t \<Longrightarrow> filter isLedgerCall t = []"
  by (induction t) (auto simp: isLedgerCall_def elim: isWarn.elims)

lemma quiet_setup: "list_all isSetupEvent t \<Longrightarrow> filter isLedgerCall t = []"
  by (induction t) (auto simp: isLedgerCall_def isSetupEvent_def)

lemma quiet_info: "\<not> isLedgerCall (infoEvent owner a)" "\<not> isLedgerCall (Logger_error e m)"
  by (simp_all add: isLedgerCall_def infoEvent_def)

lemma not_warn_filter: "list_all isWarn tw \<Longrightarrow> filter (\<lambda>ev. \<not> isWarn ev) tw = []"
  by (induction tw) auto

lemma setup_filter: "list_all isSetupEvent ts \<Longrightarrow> filter (\<lambda>ev. \<not> isWarn ev) ts = ts"
  by (induction ts) (auto simp: isSetupEvent_def)



text \<open>Before the \<open>try\<close> block nothing is asked of the ledger.\<close>

lemma mintBadge_early_failure:
  assumes "getBackendPaymentKeyHashHex W = Inl e
           \<or> (\<exists>owner ts c1. getBackendPaymentKeyHashHex W = Inr owner
                \<and> mintBadge_setup L W owner (arg_level a) c = (ts, c1, Inl e))"
  shows "outcome (mintBadge L W a c) = Inl e" and "ledgerCalls (mintBadge L W a c) = []"
proof -
  from assms have "outcome (mintBadge L W a c) = Inl e \<and> ledgerCalls (mintBadge L W a c) = []"
  proof
    assume "getBackendPaymentKeyHashHex W = Inl e"
    then show ?thesis
      by (simp add: mintBadge_eq outcome_def ledgerCalls_def trace_def)
  next
    assume "\<exists>owner ts c1. getBackendPaymentKeyHashHex W = Inr owner
                \<and> mintBadge_setup L W owner (arg_level a) c = (ts, c1, Inl e)"
    then obtain owner ts c1 where k: "getBackendPaymentKeyHashHex W = Inr owner"
      and s: "mintBadge_setup L W owner (arg_level a) c = (ts, c1, Inl e)"
      by blast
    obtain tw where tw: "mintBadge_ownerHint (arg_ownerVkhHex a) owner c = (tw, c, Inr ())"
      "list_all isWarn tw"
      using mintBadge_ownerHint_run by blast
    from s have "list_all isSetupEvent ts" by (rule mintBadge_setup_trace)
    then show ?thesis
      using tw(2)
      by (simp add: mintBadge_eq k tw(1) s outcome_def ledgerCalls_def trace_def
          quiet_warn quiet_setup quiet_info)
  qed
  then show "outcome (mintBadge L W a c) = Inl e" and "ledgerCalls (mintBadge L W a c) = []"
    by simp_all
qed

text \<open>Once the set-up has succeeded, the ledger sees what the \<open>try\<close> block does, and the
  result is the result of the \<open>try\<close> block.\<close>

lemma mintBadge_after_setup:
  assumes k: "getBackendPaymentKeyHashHex W = Inr owner"
    and s: "mintBadge_setup L W owner (Integer l) c = (ts, c1, Inr p)"
    and a: "arg_level a = Integer l"
  shows "outcome (mintBadge L W a c) = outcome (mintBadge_try L W owner l (theAction a) p c1)"
    and "ledgerCalls (mintBadge L W a c) = ledgerCalls (mintBadge_try L W owner l (theAction a) p c1)"
proof -
  obtain tw where tw: "mintBadge_ownerHint (arg_ownerVkhHex a) owner c = (tw, c, Inr ())"
    "list_all isWarn tw"
    using mintBadge_ownerHint_run by blast
  from s have ts: "list_all isSetupEvent ts" by (rule mintBadge_setup_trace)
  obtain tt c2 r where t: "mintBadge_try L W owner l (theAction a) p c1 = (tt, c2, r)"
    by (cases "mintBadge_try L W owner l (theAction a) p c1") auto
  show "outcome (mintBadge L W a c) = outcome (mintBadge_try L W owner l (theAction a) p c1)"
    by (cases r) (simp_all add: mintBadge_eq k tw(1) a s t outcome_def)
  show "ledgerCalls (mintBadge L W a c) = ledgerCalls (mintBadge_try L W owner l (theAction a) p c1)"
    using tw(2) ts
    by (cases r) (simp_all add: mintBadge_eq k tw(1) a s t ledgerCalls_def trace_def
        quiet_warn quiet_setup quiet_info)
qed

text \<open>The ledger calls of a whole call are those of its \<open>try\<close> block, if it gets there.\<close>

lemma mintBadge_ledgerCalls_cases:
  obtains (early) "ledgerCalls (mintBadge L W a c) = []"
  | (tried) owner ts c1 p l where "getBackendPaymentKeyHashHex W = Inr owner"
      "mintBadge_setup L W owner (Integer l) c = (ts, c1, Inr p)" "arg_level a = Integer l"
      "ledgerCalls (mintBadge L W a c) = ledgerCalls (mintBadge_try L W owner l (theAction a) p c1)"
proof (cases "getBackendPaymentKeyHashHex W")
  case (Inl e)
  then show ?thesis
    using mintBadge_early_failure(2) [of W e L a c] early by simp
next
  case k: (Inr owner)
  obtain ts c1 rs where s: "mintBadge_setup L W owner (arg_level a) c = (ts, c1, rs)"
    by (cases "mintBadge_setup L W owner (arg_level a) c") auto
  show ?thesis
  proof (cases rs)
    case (Inl e)
    with k s show ?thesis
      using mintBadge_early_failure(2) [of W e L a c] early by auto
  next
    case p: (Inr p)
    show ?thesis
    proof (cases "arg_level a")
      case (NonInteger x)
      with s p show ?thesis
        using mintBadge_setup_Inr(1) [of L W owner "NonInteger x" c ts c1 p]
          makeBadgeAssetName_NonInteger by simp
    next
      case (Integer l)
      with s p have s': "mintBadge_setup L W owner (Integer l) c = (ts, c1, Inr p)" by simp
      from mintBadge_after_setup(2) [OF k s' Integer] k s' Integer show ?thesis
        by (rule tried [rotated 3])
    qed
  qed
qed

lemma queries_of_ledgerCalls: "filter isQuery (ledgerCalls r) = filter isQuery (trace r)"
  unfolding ledgerCalls_def by (rule filter_within) (simp add: isLedgerCall_def)

lemma signs_of_ledgerCalls: "filter isSign (ledgerCalls r) = filter isSign (trace r)"
  unfolding ledgerCalls_def by (rule filter_within) (simp add: isLedgerCall_def)

lemma submits_of_ledgerCalls: "filter isSubmit (ledgerCalls r) = filter isSubmit (trace r)"
  unfolding ledgerCalls_def by (rule filter_within) (simp add: isLedgerCall_def)

lemma queries_via_ledgerCalls:
  "ledgerCalls r = ledgerCalls r' \<Longrightarrow> filter isQuery (trace r) = filter isQuery (fst r')"
  using queries_of_ledgerCalls [of r] queries_of_ledgerCalls [of r'] by (simp add: trace_def)

lemma builds_within:
  "List.map_filter stepsOf (filter isLedgerCall t) = List.map_filter stepsOf t"
  by (induction t) (auto simp: List.map_filter_simps isLedgerCall_def elim: stepsOf.elims split: option.splits)

lemma theBuild_via_ledgerCalls:
  "ledgerCalls r = ledgerCalls r' \<Longrightarrow> theBuild r = onlyBuild (fst r')"
  using builds_within [of "trace r"] builds_within [of "trace r'"]
  by (simp add: theBuild_def onlyBuild_def ledgerCalls_def trace_def)

section \<open>The try block\<close>

lemma mintBadge_try_Upgrade_0:
  "l < 1 \<Longrightarrow> mintBadge_try L W owner l Upgrade p c
     = ([], c, Inl (Error ''Upgrade requires `level` >= 1 (target new level)''))"
  by (simp add: mintBadge_try_def Let_def io_simps)

lemma mintBadge_try_Retire_none:
  assumes "makeBadgeAssetName owner (Integer l) = Inr (p_assetNameHex p)"
    and "toUnit L (p_policyId p) (p_assetNameHex p) = Inr (p_unit p)"
    and "utxosAtWithUnit W (p_badgeHolderAddress p) (p_unit p) = Inr []"
  shows "mintBadge_try L W owner l Retire p c
     = ([UtxosAtWithUnit (p_badgeHolderAddress p) (p_unit p)], c,
        Inl (Error (''No badge-holder UTxO found for level '' @ showInt l @ '' at ''
          @ p_badgeHolderAddress p)))"
  using assms by (simp add: mintBadge_try_def Let_def io_simps)

lemma mintBadge_try_Upgrade_none:
  assumes "1 \<le> l"
    and "makeBadgeAssetName owner (Integer (l - 1)) = Inr fromName"
    and "toUnit L (p_policyId p) fromName = Inr fromUnit"
    and "makeBadgeAssetName owner (Integer l) = Inr (p_assetNameHex p)"
    and "toUnit L (p_policyId p) (p_assetNameHex p) = Inr (p_unit p)"
    and "utxosAtWithUnit W (p_badgeHolderAddress p) fromUnit = Inr []"
  shows "mintBadge_try L W owner l Upgrade p c
     = ([UtxosAtWithUnit (p_badgeHolderAddress p) fromUnit], c,
        Inl (Error (''No badge-holder UTxO found for level '' @ showInt (l - 1) @ '' at ''
          @ p_badgeHolderAddress p)))"
  using assms by (simp add: mintBadge_try_def Let_def io_simps)

lemma makeBadgeAssetName_below:
  assumes "makeBadgeAssetName owner (Integer l) = Inr name" and "1 \<le> l"
  shows "\<exists>fromName. makeBadgeAssetName owner (Integer (l - 1)) = Inr fromName"
  using assms by (auto simp: makeBadgeAssetName_def split: sum.splits if_splits)

lemma mintBadge_try_Upgrade_no_unit:
  assumes "1 \<le> l"
    and "makeBadgeAssetName owner (Integer (l - 1)) = Inr fromName"
    and "toUnit L (p_policyId p) fromName = Inl e"
  shows "mintBadge_try L W owner l Upgrade p c = ([], c, Inl e)"
  using assms by (simp add: mintBadge_try_def Let_def io_simps)

subsection \<open>Queries\<close>

lemma buildSignSubmit_queries: "filter isQuery (fst (buildSignSubmit W steps)) = []"
  by (simp add: buildSignSubmit_def split: sum.splits)

lemma mintBadge_try_Init_queries:
  "filter isQuery (fst (mintBadge_try L W owner l Init p c)) = []"
  by (simp add: mintBadge_try_def Let_def io_simps build_sign_submit_run buildSignSubmit_queries
      split: sum.splits)

lemma mintBadge_try_Retire_queries:
  assumes "makeBadgeAssetName owner (Integer l) = Inr (p_assetNameHex p)"
    and "toUnit L (p_policyId p) (p_assetNameHex p) = Inr (p_unit p)"
  shows "filter isQuery (fst (mintBadge_try L W owner l Retire p c))
           = [UtxosAtWithUnit (p_badgeHolderAddress p) (p_unit p)]"
  using assms
  by (simp add: mintBadge_try_def Let_def io_simps build_sign_submit_run buildSignSubmit_queries
      split: sum.splits list.splits)

lemma mintBadge_try_Upgrade_queries:
  assumes "1 \<le> l"
    and "makeBadgeAssetName owner (Integer (l - 1)) = Inr fromName"
    and "toUnit L (p_policyId p) fromName = Inr fromUnit"
    and "makeBadgeAssetName owner (Integer l) = Inr (p_assetNameHex p)"
    and "toUnit L (p_policyId p) (p_assetNameHex p) = Inr (p_unit p)"
  shows "filter isQuery (fst (mintBadge_try L W owner l Upgrade p c))
           = [UtxosAtWithUnit (p_badgeHolderAddress p) fromUnit]"
  using assms
  by (simp add: mintBadge_try_def Let_def io_simps build_sign_submit_run buildSignSubmit_queries
      split: sum.splits list.splits)

lemma mintBadge_try_queries_le:
  "length (filter isQuery (fst (mintBadge_try L W owner l act p c))) \<le> 1"
proof (cases act)
  case Init
  then show ?thesis by (simp add: mintBadge_try_Init_queries)
next
  case Upgrade
  then show ?thesis
    by (simp add: mintBadge_try_def Let_def io_simps build_sign_submit_run buildSignSubmit_queries
        split: sum.splits list.splits)
next
  case Retire
  then show ?thesis
    by (simp add: mintBadge_try_def Let_def io_simps build_sign_submit_run buildSignSubmit_queries
        split: sum.splits list.splits)
next
  case (Unsupported x)
  then show ?thesis
    by (simp add: mintBadge_try_def Let_def io_simps)
qed

subsection \<open>Warnings\<close>



subsection \<open>Transactions built\<close>

lemma buildSignSubmit_builds:
  "List.map_filter stepsOf (fst (buildSignSubmit W steps)) = [steps]"
  by (simp add: buildSignSubmit_def List.map_filter_simps split: sum.splits)

lemma onlyBuild_buildSignSubmit: "onlyBuild (fst (buildSignSubmit W steps)) = Some steps"
  by (simp add: onlyBuild_def buildSignSubmit_builds)

lemma onlyBuild_after_query:
  "onlyBuild (UtxosAtWithUnit address u # t) = onlyBuild t"
  by (simp add: onlyBuild_def List.map_filter_simps)

lemma mintBadge_try_Init_builds:
  assumes "encodeBadgeMintRedeemer L Init owner
             \<lparr>args_level = Some (Integer l), args_fromLevel = None, args_toLevel = None\<rparr>
           = Inr mintRedeemer"
  shows "onlyBuild (fst (mintBadge_try L W owner l Init p c))
    = Some [AttachMintingPolicy (p_badgeMintPolicy p),
        AddSignerKey owner,
        MintAssets [(p_unit p, 1)] mintRedeemer,
        PayToContract (p_badgeHolderAddress p) (p_badgeDatumCbor p)
          [(''lovelace'', 2000000), (p_unit p, 1)]]"
  using assms
  by (simp add: mintBadge_try_def Let_def try_simps onlyBuild_buildSignSubmit)

lemma mintBadge_try_Upgrade_builds:
  assumes "1 \<le> l"
    and "makeBadgeAssetName owner (Integer (l - 1)) = Inr fromName"
    and "toUnit L (p_policyId p) fromName = Inr fromUnit"
    and "makeBadgeAssetName owner (Integer l) = Inr (p_assetNameHex p)"
    and "toUnit L (p_policyId p) (p_assetNameHex p) = Inr (p_unit p)"
    and "encodeBadgeDatum L owner (Integer l) (p_policyId p) = Inr (p_badgeDatumCbor p)"
    and "utxosAtWithUnit W (p_badgeHolderAddress p) fromUnit = Inr (u # us)"
    and "encodeBadgeMintRedeemer L Upgrade owner
             \<lparr>args_level = None, args_fromLevel = Some (Integer (l - 1)),
              args_toLevel = Some (Integer l)\<rparr>
           = Inr mintRedeemer"
    and "encodeBadgeHolderRedeemer L Upgrade (Some (Integer l)) = Inr spendRedeemer"
  shows "onlyBuild (fst (mintBadge_try L W owner l Upgrade p c))
    = Some [AttachMintingPolicy (p_badgeMintPolicy p),
        AttachSpendingValidator (p_badgeHolderValidator p),
        AddSignerKey owner,
        CollectFrom [u] spendRedeemer,
        MintAssets [(fromUnit, - 1), (p_unit p, 1)] mintRedeemer,
        PayToContract (p_badgeHolderAddress p) (p_badgeDatumCbor p)
          [(''lovelace'', 2000000), (p_unit p, 1)]]"
  using assms
  by (simp add: mintBadge_try_def Let_def try_simps onlyBuild_buildSignSubmit onlyBuild_after_query)

lemma mintBadge_try_Retire_builds:
  assumes "makeBadgeAssetName owner (Integer l) = Inr (p_assetNameHex p)"
    and "toUnit L (p_policyId p) (p_assetNameHex p) = Inr (p_unit p)"
    and "utxosAtWithUnit W (p_badgeHolderAddress p) (p_unit p) = Inr (u # us)"
    and "encodeBadgeMintRedeemer L Retire owner
             \<lparr>args_level = Some (Integer l), args_fromLevel = None, args_toLevel = None\<rparr>
           = Inr mintRedeemer"
    and "encodeBadgeHolderRedeemer L Retire None = Inr spendRedeemer"
  shows "onlyBuild (fst (mintBadge_try L W owner l Retire p c))
    = Some [AttachMintingPolicy (p_badgeMintPolicy p),
        AttachSpendingValidator (p_badgeHolderValidator p),
        AddSignerKey owner,
        CollectFrom [u] spendRedeemer,
        MintAssets [(p_unit p, - 1)] mintRedeemer]"
  using assms
  by (simp add: mintBadge_try_def Let_def try_simps onlyBuild_buildSignSubmit onlyBuild_after_query)

subsection \<open>Transaction calls and how a call ends\<close>

lemma buildSignSubmit_txCalls:
  "filter isTxCall (fst (buildSignSubmit W steps)) = fst (buildSignSubmit W steps)"
  by (simp add: buildSignSubmit_def isTxCall_def split: sum.splits)

lemma buildSignSubmit_member:
  "TxComplete steps' \<in> set (fst (buildSignSubmit W steps)) \<longleftrightarrow> steps' = steps"
  by (auto simp: buildSignSubmit_def split: sum.splits)

lemma quiet_of: "quiet (io_of r)"
  by (simp add: quiet_def io_of_def)

lemma quiet_query: "quiet (io_call (UtxosAtWithUnit address u) r)"
  by (simp add: quiet_def io_call_def isTxCall_def)

lemma settles_throw: "settles W (io_throw e)"
  by (simp add: settles_def io_throw_def)

lemma settles_bind:
  assumes "quiet m" and "\<And>x. settles W (f x)"
  shows "settles W (io_bind m f)"
  unfolding settles_def
proof
  fix c
  from assms(1) have q: "fst (snd (m c)) = c" "filter isTxCall (fst (m c)) = []"
    by (simp_all add: quiet_def)
  obtain t r where m: "m c = (t, c, r)"
    using q(1) by (cases "m c") auto
  from q(2) m have t: "filter isTxCall t = []" by simp
  show "fst (snd (io_bind m f c)) = c \<and>
     ((filter isTxCall (fst (io_bind m f c)) = [] \<and> (\<exists>e. snd (snd (io_bind m f c)) = Inl e))
      \<or> (\<exists>steps. filter isTxCall (fst (io_bind m f c)) = fst (buildSignSubmit W steps)
            \<and> endsAs (snd (buildSignSubmit W steps)) (snd (snd (io_bind m f c)))))"
  proof (cases r)
    case (Inl e)
    then show ?thesis by (simp add: io_bind_def m t)
  next
    case (Inr x)
    obtain t' c' r' where f: "f x c = (t', c', r')"
      by (cases "f x c") auto
    from assms(2) [of x] have "fst (snd (f x c)) = c \<and>
     ((filter isTxCall (fst (f x c)) = [] \<and> (\<exists>e. snd (snd (f x c)) = Inl e))
      \<or> (\<exists>steps. filter isTxCall (fst (f x c)) = fst (buildSignSubmit W steps)
            \<and> endsAs (snd (buildSignSubmit W steps)) (snd (snd (f x c)))))"
      unfolding settles_def by blast
    then show ?thesis
      by (simp add: io_bind_def m Inr f t)
  qed
qed

lemma settles_tail:
  assumes "\<And>h. res_txHash (f h) = h"
  shows "settles W
   (io_bind (io_call (TxComplete steps) (complete W steps)) (\<lambda>tx.
    io_bind (io_call (TxSign tx) (sign W tx)) (\<lambda>stx.
    io_bind (io_call (TxSubmit stx) (submit W stx)) (\<lambda>txHash.
    io_return (f txHash)))))"
  unfolding settles_def
proof
  fix c
  let ?m = "io_bind (io_call (TxComplete steps) (complete W steps)) (\<lambda>tx.
    io_bind (io_call (TxSign tx) (sign W tx)) (\<lambda>stx.
    io_bind (io_call (TxSubmit stx) (submit W stx)) (\<lambda>txHash.
    io_return (f txHash))))"
  have run: "?m c = (fst (buildSignSubmit W steps), c, map_sum id f (snd (buildSignSubmit W steps)))"
    by (rule build_sign_submit_run)
  have "endsAs (snd (buildSignSubmit W steps)) (map_sum id f (snd (buildSignSubmit W steps)))"
    by (cases "snd (buildSignSubmit W steps)") (simp_all add: assms)
  then have "\<exists>steps'. filter isTxCall (fst (?m c)) = fst (buildSignSubmit W steps')
            \<and> endsAs (snd (buildSignSubmit W steps')) (snd (snd (?m c)))"
    by (intro exI [of _ steps]) (simp add: run buildSignSubmit_txCalls)
  then show "fst (snd (?m c)) = c \<and>
     ((filter isTxCall (fst (?m c)) = [] \<and> (\<exists>e. snd (snd (?m c)) = Inl e))
      \<or> (\<exists>steps. filter isTxCall (fst (?m c)) = fst (buildSignSubmit W steps)
            \<and> endsAs (snd (buildSignSubmit W steps)) (snd (snd (?m c)))))"
    by (simp add: run)
qed

lemma settles_if: "(b \<Longrightarrow> settles W x) \<Longrightarrow> (\<not> b \<Longrightarrow> settles W y) \<Longrightarrow> settles W (if b then x else y)"
  by simp

lemma settles_list:
  "settles W x \<Longrightarrow> (\<And>u us. settles W (y u us)) \<Longrightarrow> settles W (case xs of [] \<Rightarrow> x | u # us \<Rightarrow> y u us)"
  by (cases xs) simp_all

lemma mintBadge_try_settles: "settles W (mintBadge_try L W owner l act p)"
  unfolding mintBadge_try_def Let_def
  by (intro settles_if settles_bind settles_list settles_throw settles_tail quiet_of quiet_query)
     simp_all

lemma quiet_warn_tx: "list_all isWarn t \<Longrightarrow> filter isTxCall t = []"
  by (induction t) (auto simp: isTxCall_def elim: isWarn.elims)

lemma quiet_setup_tx: "list_all isSetupEvent t \<Longrightarrow> filter isTxCall t = []"
  by (induction t) (auto simp: isTxCall_def isSetupEvent_def)

lemma quiet_info_tx: "\<not> isTxCall (infoEvent owner a)" "\<not> isTxCall (Logger_error e m)"
  by (simp_all add: isTxCall_def infoEvent_def)

text \<open>What a whole call shows of transactions: none and a failure, or the calls of one
  build, sign and submit and their end; and a failure after a transaction call is logged
  last.\<close>

lemma mintBadge_settles:
  "((filter isTxCall (trace (mintBadge L W a c)) = [] \<and> (\<exists>e. outcome (mintBadge L W a c) = Inl e))
    \<or> (\<exists>steps. filter isTxCall (trace (mintBadge L W a c)) = fst (buildSignSubmit W steps)
          \<and> endsAs (snd (buildSignSubmit W steps)) (outcome (mintBadge L W a c))))
   \<and> (\<forall>e. outcome (mintBadge L W a c) = Inl e \<and> filter isTxCall (trace (mintBadge L W a c)) \<noteq> []
          \<longrightarrow> last (trace (mintBadge L W a c)) = Logger_error e ''Badge mint failed'')"
proof (cases "getBackendPaymentKeyHashHex W")
  case (Inl e)
  then show ?thesis
    by (simp add: mintBadge_eq outcome_def trace_def)
next
  case k: (Inr owner)
  obtain tw where tw: "mintBadge_ownerHint (arg_ownerVkhHex a) owner c = (tw, c, Inr ())"
    "list_all isWarn tw"
    using mintBadge_ownerHint_run by blast
  obtain ts c1 rs where s: "mintBadge_setup L W owner (arg_level a) c = (ts, c1, rs)"
    by (cases "mintBadge_setup L W owner (arg_level a) c") auto
  then have ts: "list_all isSetupEvent ts" by (rule mintBadge_setup_trace)
  note quiet = quiet_warn_tx [OF tw(2)] quiet_setup_tx [OF ts] quiet_info_tx
  show ?thesis
  proof (cases rs)
    case (Inl e)
    then show ?thesis
      by (simp add: mintBadge_eq k tw(1) s outcome_def trace_def quiet)
  next
    case p: (Inr p)
    show ?thesis
    proof (cases "arg_level a")
      case (NonInteger x)
      then show ?thesis
        by (simp add: mintBadge_eq k tw(1) s [unfolded NonInteger] p outcome_def trace_def quiet)
    next
      case (Integer l)
      obtain tt c2 r where t: "mintBadge_try L W owner l (theAction a) p c1 = (tt, c2, r)"
        by (cases "mintBadge_try L W owner l (theAction a) p c1") auto
      have "settles W (mintBadge_try L W owner l (theAction a) p)"
        by (rule mintBadge_try_settles)
      then have shape: "(filter isTxCall tt = [] \<and> (\<exists>e. r = Inl e))
         \<or> (\<exists>steps. filter isTxCall tt = fst (buildSignSubmit W steps)
               \<and> endsAs (snd (buildSignSubmit W steps)) r)"
        unfolding settles_def using t by (metis fst_conv snd_conv)
      show ?thesis
      proof (cases r)
        case (Inl e)
        with shape show ?thesis
          by (simp add: mintBadge_eq k tw(1) s [unfolded Integer] p Integer t outcome_def trace_def quiet)
      next
        case (Inr res)
        with shape show ?thesis
          by (simp add: mintBadge_eq k tw(1) s [unfolded Integer] p Integer t outcome_def trace_def quiet)
      qed
    qed
  qed
qed

subsection \<open>Results\<close>











section \<open>The sample environment, evaluated\<close>

lemma sample_key:
  "getBackendPaymentKeyHashHex sampleWorld = Inr sampleOwner"
  "getBackendPaymentKeyHashHex emptyLedger = Inr sampleOwner"
  "getBackendPaymentKeyHashHex failingBuilder = Inr sampleOwner"
  by code_simp+

lemma sample_setup:
  "mintBadge_setup sampleLib sampleWorld sampleOwner (Integer 0) coldCache
     = ([ReadBlueprint, ConnectLucid], warmCache, Inr (samplePrepared ''00'' 0))"
  "mintBadge_setup sampleLib sampleWorld sampleOwner (Integer 1) coldCache
     = ([ReadBlueprint, ConnectLucid], warmCache, Inr (samplePrepared ''01'' 1))"
  "mintBadge_setup sampleLib emptyLedger sampleOwner (Integer 2) coldCache
     = ([ReadBlueprint, ConnectLucid], warmCache, Inr (samplePrepared ''02'' 2))"
  "mintBadge_setup sampleLib failingBuilder sampleOwner (Integer 0) coldCache
     = ([ReadBlueprint, ConnectLucid], warmCache, Inr (samplePrepared ''00'' 0))"
  by code_simp+

lemma sample_names:
  "makeBadgeAssetName sampleOwner (Integer 0) = Inr (''5900'' @ sampleOwner)"
  "makeBadgeAssetName sampleOwner (Integer 1) = Inr (''5901'' @ sampleOwner)"
  "makeBadgeAssetName sampleOwner (Integer 2) = Inr (''5902'' @ sampleOwner)"
  by code_simp+

lemma unconfigured_run:
  "getBackendPaymentKeyHashHex unconfigured = Inr sampleOwner"
  "mintBadge_setup sampleLib unconfigured sampleOwner (Integer 0) coldCache
     = ([ReadBlueprint], coldCache\<lparr>blueprintPromise := Some (Inr sampleBlueprint)\<rparr>,
        Inl (Error ''BLOCKFROST_PROJECT_ID is not configured''))"
  by code_simp+

section \<open>Upgrade to level 0 (C4)\<close>

text \<open>
  C4 as it is written fails where the set-up of the call fails: on the sample environment
  without \<open>BLOCKFROST_PROJECT_ID\<close>, Upgrade to level 0 ends with the configuration error
  of \<open>getLucid\<close>, which is thrown before the guard of the Upgrade branch is reached.
\<close>

theorem mintBadge_Upgrade_level_0_counterexample:
  "outcome (mintBadge sampleLib unconfigured (request Upgrade 0) coldCache)
     = Inl (Error ''BLOCKFROST_PROJECT_ID is not configured'')
   \<and> \<not> String_includes (message (Error ''BLOCKFROST_PROJECT_ID is not configured''))
         ''Upgrade requires''"
  by code_simp

text \<open>
  Claim C4, amended. \<open>mintBadge\<close> with the action Upgrade and the target level 0 fails
  on every run, and no call is made of the ledger: no query for unspent outputs, no
  build, no signature, no submission. The error is that of the first step that fails:
  the key hash, then the set-up (blueprint, scripts, ledger client, policy id, asset
  name, unit, holder address, datum), then the guard of the Upgrade branch. So when the
  key hash and the set-up have succeeded, the error is the one of the precondition, and
  its message contains "Upgrade requires"; the events of the call are then, the warnings
  about the hint apart, the log record of the call, the events of the set-up (the
  blueprint is read and the client connected, unless they are cached) and the log record
  of the failure.
\<close>

theorem mintBadge_Upgrade_level_0:
  assumes "arg_action a = Some Upgrade" and "arg_level a = Integer 0"
  shows "(\<exists>e. outcome (mintBadge L W a c) = Inl e)
       \<and> ledgerCalls (mintBadge L W a c) = []
       \<and> filter isQuery (trace (mintBadge L W a c)) = []
       \<and> filter isSign (trace (mintBadge L W a c)) = []
       \<and> filter isSubmit (trace (mintBadge L W a c)) = []
       \<and> (\<forall>e. getBackendPaymentKeyHashHex W = Inl e
             \<longrightarrow> outcome (mintBadge L W a c) = Inl e)
       \<and> (\<forall>owner ts c1 e.
             getBackendPaymentKeyHashHex W = Inr owner
             \<and> mintBadge_setup L W owner (Integer 0) c = (ts, c1, Inl e)
             \<longrightarrow> outcome (mintBadge L W a c) = Inl e)
       \<and> (\<forall>owner ts c1 p.
             getBackendPaymentKeyHashHex W = Inr owner
             \<and> mintBadge_setup L W owner (Integer 0) c = (ts, c1, Inr p)
             \<longrightarrow> outcome (mintBadge L W a c)
                   = Inl (Error ''Upgrade requires `level` >= 1 (target new level)'')
                 \<and> String_includes ''Upgrade requires `level` >= 1 (target new level)''
                      ''Upgrade requires''
                 \<and> filter (\<lambda>ev. \<not> isWarn ev) (trace (mintBadge L W a c))
                   = infoEvent owner a # ts
                     @ [Logger_error (Error ''Upgrade requires `level` >= 1 (target new level)'')
                          ''Badge mint failed'']
                 \<and> ts = (if blueprintPromise c = None then [ReadBlueprint] else [])
                        @ (if lucidPromise c = None then [ConnectLucid] else []))"
proof -
  let ?r = "mintBadge L W a c"
  let ?e = "Error ''Upgrade requires `level` >= 1 (target new level)''"
  have act: "theAction a = Upgrade"
    using assms(1) by (simp add: theAction_def)
  have nokey: "outcome ?r = Inl e \<and> ledgerCalls ?r = []"
    if "getBackendPaymentKeyHashHex W = Inl e" for e
    using that mintBadge_early_failure [of W e L a c] by simp
  have nosetup: "outcome ?r = Inl e \<and> ledgerCalls ?r = []"
    if "getBackendPaymentKeyHashHex W = Inr owner"
      and "mintBadge_setup L W owner (Integer 0) c = (ts, c1, Inl e)" for owner ts c1 e
    using that assms(2) mintBadge_early_failure [of W e L a c] by auto
  have ok: "outcome ?r = Inl ?e \<and> ledgerCalls ?r = []
      \<and> filter (\<lambda>ev. \<not> isWarn ev) (trace ?r)
          = infoEvent owner a # ts @ [Logger_error ?e ''Badge mint failed'']"
    if k: "getBackendPaymentKeyHashHex W = Inr owner"
      and s: "mintBadge_setup L W owner (Integer 0) c = (ts, c1, Inr p)" for owner ts c1 p
  proof -
    obtain tw where tw: "mintBadge_ownerHint (arg_ownerVkhHex a) owner c = (tw, c, Inr ())"
      "list_all isWarn tw"
      using mintBadge_ownerHint_run by blast
    from s have ts: "list_all isSetupEvent ts" by (rule mintBadge_setup_trace)
    have run: "?r = (tw @ infoEvent owner a # ts @ [Logger_error ?e ''Badge mint failed''], c1, Inl ?e)"
      by (simp add: mintBadge_eq k tw(1) assms(2) s act mintBadge_try_Upgrade_0)
    have "filter (\<lambda>ev. \<not> isWarn ev) (trace ?r)
          = infoEvent owner a # ts @ [Logger_error ?e ''Badge mint failed'']"
      by (simp add: run trace_def not_warn_filter [OF tw(2)] setup_filter [OF ts] infoEvent_def)
    then show ?thesis
      using mintBadge_after_setup [OF k s assms(2)]
      by (simp add: act mintBadge_try_Upgrade_0 outcome_def ledgerCalls_def trace_def)
  qed
  have main: "(\<exists>e. outcome ?r = Inl e) \<and> ledgerCalls ?r = []"
  proof (cases "getBackendPaymentKeyHashHex W")
    case (Inl e)
    then show ?thesis using nokey by blast
  next
    case k: (Inr owner)
    obtain ts c1 r where s: "mintBadge_setup L W owner (Integer 0) c = (ts, c1, r)"
      by (cases "mintBadge_setup L W owner (Integer 0) c") auto
    show ?thesis
    proof (cases r)
      case (Inl e)
      with k s nosetup show ?thesis by blast
    next
      case (Inr p)
      with k s ok show ?thesis by blast
    qed
  qed
  have inc: "String_includes ''Upgrade requires `level` >= 1 (target new level)'' ''Upgrade requires''"
    by simp
  from main have quiet: "filter isQuery (trace ?r) = []"
    "filter isSign (trace ?r) = []"
    "filter isSubmit (trace ?r) = []"
    using queries_of_ledgerCalls [of ?r] signs_of_ledgerCalls [of ?r]
      submits_of_ledgerCalls [of ?r] by simp_all
  show ?thesis
  proof (intro conjI allI impI)
    show "\<exists>e. outcome ?r = Inl e" using main by simp
    show "ledgerCalls ?r = []" using main by simp
    show "filter isQuery (trace ?r) = []" by (rule quiet)
    show "filter isSign (trace ?r) = []" by (rule quiet)
    show "filter isSubmit (trace ?r) = []" by (rule quiet)
  next
    fix e assume "getBackendPaymentKeyHashHex W = Inl e"
    then show "outcome ?r = Inl e" using nokey by blast
  next
    fix owner ts c1 e
    assume "getBackendPaymentKeyHashHex W = Inr owner
             \<and> mintBadge_setup L W owner (Integer 0) c = (ts, c1, Inl e)"
    then show "outcome ?r = Inl e" using nosetup by blast
  next
    fix owner ts c1 p
    assume h: "getBackendPaymentKeyHashHex W = Inr owner
             \<and> mintBadge_setup L W owner (Integer 0) c = (ts, c1, Inr p)"
    from h ok [of owner ts c1 p] show "outcome ?r = Inl ?e" by blast
    show "String_includes ''Upgrade requires `level` >= 1 (target new level)'' ''Upgrade requires''"
      by (rule inc)
    from h ok [of owner ts c1 p]
    show "filter (\<lambda>ev. \<not> isWarn ev) (trace ?r)
            = infoEvent owner a # ts @ [Logger_error ?e ''Badge mint failed'']" by blast
    from h show "ts = (if blueprintPromise c = None then [ReadBlueprint] else [])
                        @ (if lucidPromise c = None then [ConnectLucid] else [])"
      using mintBadge_setup_events [of L W owner "Integer 0" c ts c1 p] by blast
  qed
qed

text \<open>The statement of C4 on the sample environment, where the set-up succeeds, and on the
  sample environment without the project id, where it fails.\<close>

theorem mintBadge_Upgrade_level_0_witness:
  "outcome (mintBadge sampleLib sampleWorld (request Upgrade 0) coldCache)
     = Inl (Error ''Upgrade requires `level` >= 1 (target new level)'')
   \<and> String_includes ''Upgrade requires `level` >= 1 (target new level)'' ''Upgrade requires''
   \<and> ledgerCalls (mintBadge sampleLib sampleWorld (request Upgrade 0) coldCache) = []
   \<and> filter (\<lambda>ev. \<not> isWarn ev) (trace (mintBadge sampleLib sampleWorld (request Upgrade 0) coldCache))
       = [infoEvent sampleOwner (request Upgrade 0), ReadBlueprint, ConnectLucid,
          Logger_error (Error ''Upgrade requires `level` >= 1 (target new level)'')
            ''Badge mint failed'']
   \<and> outcome (mintBadge sampleLib unconfigured (request Upgrade 0) coldCache)
       = Inl (Error ''BLOCKFROST_PROJECT_ID is not configured'')
   \<and> ledgerCalls (mintBadge sampleLib unconfigured (request Upgrade 0) coldCache) = []"
proof -
  have a: "arg_action (request Upgrade 0) = Some Upgrade" "arg_level (request Upgrade 0) = Integer 0"
    by (simp_all add: request_def)
  note t = mintBadge_Upgrade_level_0 [OF a, of sampleLib sampleWorld coldCache]
  note u = mintBadge_Upgrade_level_0 [OF a, of sampleLib unconfigured coldCache]
  from t sample_key(1) sample_setup(1)
  have "outcome (mintBadge sampleLib sampleWorld (request Upgrade 0) coldCache)
          = Inl (Error ''Upgrade requires `level` >= 1 (target new level)'')
        \<and> String_includes ''Upgrade requires `level` >= 1 (target new level)'' ''Upgrade requires''
        \<and> filter (\<lambda>ev. \<not> isWarn ev) (trace (mintBadge sampleLib sampleWorld (request Upgrade 0) coldCache))
           = infoEvent sampleOwner (request Upgrade 0) # [ReadBlueprint, ConnectLucid]
             @ [Logger_error (Error ''Upgrade requires `level` >= 1 (target new level)'')
                  ''Badge mint failed'']"
    by blast
  moreover from t have "ledgerCalls (mintBadge sampleLib sampleWorld (request Upgrade 0) coldCache) = []"
    by blast
  moreover from u unconfigured_run
  have "outcome (mintBadge sampleLib unconfigured (request Upgrade 0) coldCache)
       = Inl (Error ''BLOCKFROST_PROJECT_ID is not configured'')"
    by blast
  moreover from u have "ledgerCalls (mintBadge sampleLib unconfigured (request Upgrade 0) coldCache) = []"
    by blast
  ultimately show ?thesis by simp
qed

section \<open>No holder output (C5)\<close>

text \<open>
  Claim C5. When the set-up of a call has succeeded and the query for the badge unit returns
  no output, Retire fails with an error that names the level and the holder address, and
  Upgrade (for a target level of at least 1) fails with an error that names the level
  looked for and the holder address; the query is the only call made of the ledger, so
  nothing is signed or submitted.
\<close>

theorem mintBadge_no_holder_output:
  assumes "getBackendPaymentKeyHashHex W = Inr owner"
    and "mintBadge_setup L W owner (Integer l) c = (ts, c1, Inr p)"
    and "arg_level a = Integer l"
  shows "(arg_action a = Some Retire
          \<and> utxosAtWithUnit W (p_badgeHolderAddress p) (p_unit p) = Inr []
          \<longrightarrow> outcome (mintBadge L W a c)
                = Inl (Error (''No badge-holder UTxO found for level '' @ showInt l @ '' at ''
                    @ p_badgeHolderAddress p))
              \<and> ledgerCalls (mintBadge L W a c)
                  = [UtxosAtWithUnit (p_badgeHolderAddress p) (p_unit p)]
              \<and> filter isSign (trace (mintBadge L W a c)) = []
              \<and> filter isSubmit (trace (mintBadge L W a c)) = [])
       \<and> (arg_action a = Some Upgrade \<and> 1 \<le> l
          \<and> makeBadgeAssetName owner (Integer (l - 1)) = Inr fromName
          \<and> toUnit L (p_policyId p) fromName = Inr fromUnit
          \<and> utxosAtWithUnit W (p_badgeHolderAddress p) fromUnit = Inr []
          \<longrightarrow> outcome (mintBadge L W a c)
                = Inl (Error (''No badge-holder UTxO found for level '' @ showInt (l - 1) @ '' at ''
                    @ p_badgeHolderAddress p))
              \<and> ledgerCalls (mintBadge L W a c)
                  = [UtxosAtWithUnit (p_badgeHolderAddress p) fromUnit]
              \<and> filter isSign (trace (mintBadge L W a c)) = []
              \<and> filter isSubmit (trace (mintBadge L W a c)) = [])"
proof -
  let ?r = "mintBadge L W a c"
  note after = mintBadge_after_setup [OF assms]
  note made = mintBadge_setup_Inr [OF assms(2)]
  have quiet: "filter isSign (trace ?r) = [] \<and> filter isSubmit (trace ?r) = []"
    if "ledgerCalls ?r = [UtxosAtWithUnit address u]" for address u
    using that signs_of_ledgerCalls [of ?r] submits_of_ledgerCalls [of ?r] by simp
  have retire: "outcome ?r
                = Inl (Error (''No badge-holder UTxO found for level '' @ showInt l @ '' at ''
                    @ p_badgeHolderAddress p))
              \<and> ledgerCalls ?r = [UtxosAtWithUnit (p_badgeHolderAddress p) (p_unit p)]"
    if "arg_action a = Some Retire"
      "utxosAtWithUnit W (p_badgeHolderAddress p) (p_unit p) = Inr []"
  proof -
    from that(1) have "theAction a = Retire" by (simp add: theAction_def)
    then show ?thesis
      using after mintBadge_try_Retire_none [OF made(1) made(2) that(2), of c1]
      by (simp add: outcome_def ledgerCalls_def trace_def isLedgerCall_def)
  qed
  have upgrade: "outcome ?r
                = Inl (Error (''No badge-holder UTxO found for level '' @ showInt (l - 1) @ '' at ''
                    @ p_badgeHolderAddress p))
              \<and> ledgerCalls ?r = [UtxosAtWithUnit (p_badgeHolderAddress p) fromUnit]"
    if "arg_action a = Some Upgrade" "1 \<le> l"
      "makeBadgeAssetName owner (Integer (l - 1)) = Inr fromName"
      "toUnit L (p_policyId p) fromName = Inr fromUnit"
      "utxosAtWithUnit W (p_badgeHolderAddress p) fromUnit = Inr []"
  proof -
    from that(1) have "theAction a = Upgrade" by (simp add: theAction_def)
    then show ?thesis
      using after mintBadge_try_Upgrade_none [OF that(2,3,4) made(1) made(2) that(5), of c1]
      by (simp add: outcome_def ledgerCalls_def trace_def isLedgerCall_def)
  qed
  from retire upgrade quiet show ?thesis by blast
qed

text \<open>The statement of C5 on the sample ledger without outputs: Retire at level 2 and
  Upgrade to level 2.\<close>

theorem mintBadge_no_holder_output_witness:
  "outcome (mintBadge sampleLib emptyLedger (request Retire 2) coldCache)
     = Inl (Error ''No badge-holder UTxO found for level 2 at addr_test1holder'')
   \<and> ledgerCalls (mintBadge sampleLib emptyLedger (request Retire 2) coldCache)
       = [UtxosAtWithUnit ''addr_test1holder'' (sampleUnit ''02'')]
   \<and> filter isSign (trace (mintBadge sampleLib emptyLedger (request Retire 2) coldCache)) = []
   \<and> filter isSubmit (trace (mintBadge sampleLib emptyLedger (request Retire 2) coldCache)) = []
   \<and> outcome (mintBadge sampleLib emptyLedger (request Upgrade 2) coldCache)
     = Inl (Error ''No badge-holder UTxO found for level 1 at addr_test1holder'')
   \<and> ledgerCalls (mintBadge sampleLib emptyLedger (request Upgrade 2) coldCache)
       = [UtxosAtWithUnit ''addr_test1holder'' (sampleUnit ''01'')]"
proof -
  have lvl: "arg_level (request Retire 2) = Integer 2" "arg_level (request Upgrade 2) = Integer 2"
    "arg_action (request Retire 2) = Some Retire" "arg_action (request Upgrade 2) = Some Upgrade"
    by (simp_all add: request_def)
  have p: "p_badgeHolderAddress (samplePrepared ''02'' 2) = ''addr_test1holder''"
    "p_unit (samplePrepared ''02'' 2) = sampleUnit ''02''"
    "p_policyId (samplePrepared ''02'' 2) = samplePolicyId"
    by (simp_all add: samplePrepared_def)
  have none: "utxosAtWithUnit emptyLedger address u = Inr []" for address u
    by (simp add: emptyLedger_def)
  have unit1: "toUnit sampleLib policyId name = Inr (policyId @ name)" for policyId name
    by (simp add: sampleLib_def)
  have shown: "showInt 2 = ''2''" "showInt 1 = ''1''"
    by code_simp+
  from mintBadge_no_holder_output [OF sample_key(2) sample_setup(3) lvl(1),
      of "''5901'' @ sampleOwner" "sampleUnit ''01''"]
  have a: "outcome (mintBadge sampleLib emptyLedger (request Retire 2) coldCache)
     = Inl (Error ''No badge-holder UTxO found for level 2 at addr_test1holder'')
   \<and> ledgerCalls (mintBadge sampleLib emptyLedger (request Retire 2) coldCache)
       = [UtxosAtWithUnit ''addr_test1holder'' (sampleUnit ''02'')]
   \<and> filter isSign (trace (mintBadge sampleLib emptyLedger (request Retire 2) coldCache)) = []
   \<and> filter isSubmit (trace (mintBadge sampleLib emptyLedger (request Retire 2) coldCache)) = []"
    by (simp add: lvl p none shown)
  from mintBadge_no_holder_output [OF sample_key(2) sample_setup(3) lvl(2),
      of "''5901'' @ sampleOwner" "sampleUnit ''01''"]
  have b: "outcome (mintBadge sampleLib emptyLedger (request Upgrade 2) coldCache)
     = Inl (Error ''No badge-holder UTxO found for level 1 at addr_test1holder'')
   \<and> ledgerCalls (mintBadge sampleLib emptyLedger (request Upgrade 2) coldCache)
       = [UtxosAtWithUnit ''addr_test1holder'' (sampleUnit ''01'')]"
    by (simp add: lvl p none shown unit1 sample_names sampleUnit_def)
  from a b show ?thesis by simp
qed

section \<open>Holder lookups (C8)\<close>

text \<open>
  C8 as it is written fails for Upgrade to level 0: on the sample environment, where the
  set-up succeeds and the ledger holds an output, the call makes no query.
\<close>

theorem mintBadge_holder_lookups_counterexample:
  "arg_action (request Upgrade 0) = Some Upgrade
   \<and> getBackendPaymentKeyHashHex sampleWorld = Inr sampleOwner
   \<and> mintBadge_setup sampleLib sampleWorld sampleOwner (Integer 0) coldCache
       = ([ReadBlueprint, ConnectLucid], warmCache, Inr (samplePrepared ''00'' 0))
   \<and> filter isQuery (trace (mintBadge sampleLib sampleWorld (request Upgrade 0) coldCache)) = []"
  by code_simp

text \<open>
  Claim C8, amended. With the action Init no query for unspent outputs is made, and no
  call makes more than one. When the key hash and the set-up have succeeded, Retire makes
  exactly one query, for the unit of its level; Upgrade to level 0 makes none; Upgrade to
  a level of at least 1 has the asset name of the level below and makes exactly one
  query, for the unit of that name, when the library's \<open>toUnit\<close> returns this unit, and
  none when \<open>toUnit\<close> throws, which is then the error of the call.
\<close>

theorem mintBadge_holder_lookups:
  "(theAction a = Init \<longrightarrow> filter isQuery (trace (mintBadge L W a c)) = [])
   \<and> length (filter isQuery (trace (mintBadge L W a c))) \<le> 1
   \<and> (getBackendPaymentKeyHashHex W = Inr owner
       \<and> mintBadge_setup L W owner (Integer l) c = (ts, c1, Inr p)
       \<and> arg_level a = Integer l \<longrightarrow>
         (theAction a = Retire \<longrightarrow>
            filter isQuery (trace (mintBadge L W a c))
              = [UtxosAtWithUnit (p_badgeHolderAddress p) (p_unit p)])
       \<and> (theAction a = Upgrade \<and> l < 1 \<longrightarrow>
            filter isQuery (trace (mintBadge L W a c)) = [])
       \<and> (theAction a = Upgrade \<and> 1 \<le> l \<longrightarrow>
            (\<exists>fromName. makeBadgeAssetName owner (Integer (l - 1)) = Inr fromName
               \<and> (case toUnit L (p_policyId p) fromName of
                    Inr fromUnit \<Rightarrow>
                      filter isQuery (trace (mintBadge L W a c))
                        = [UtxosAtWithUnit (p_badgeHolderAddress p) fromUnit]
                  | Inl e \<Rightarrow>
                      filter isQuery (trace (mintBadge L W a c)) = []
                      \<and> outcome (mintBadge L W a c) = Inl e))))"
proof (intro conjI impI)
  let ?r = "mintBadge L W a c"
  note q = queries_of_ledgerCalls [of ?r, symmetric]
  show "filter isQuery (trace ?r) = []" if "theAction a = Init"
  proof (cases rule: mintBadge_ledgerCalls_cases [of L W a c])
    case early
    then show ?thesis by (simp add: q)
  next
    case (tried owner ts c1 p l)
    then show ?thesis
      using that mintBadge_try_Init_queries [of L W owner l p c1]
      by (simp add: queries_via_ledgerCalls)
  qed
  show "length (filter isQuery (trace ?r)) \<le> 1"
  proof (cases rule: mintBadge_ledgerCalls_cases [of L W a c])
    case early
    then show ?thesis by (simp add: q)
  next
    case (tried owner ts c1 p l)
    then show ?thesis
      using mintBadge_try_queries_le [of L W owner l "theAction a" p c1]
      by (simp add: queries_via_ledgerCalls)
  qed
next
  let ?r = "mintBadge L W a c"
  note q = queries_of_ledgerCalls [of ?r, symmetric]
  assume h: "getBackendPaymentKeyHashHex W = Inr owner
       \<and> mintBadge_setup L W owner (Integer l) c = (ts, c1, Inr p)
       \<and> arg_level a = Integer l"
  then have k: "getBackendPaymentKeyHashHex W = Inr owner"
    and s: "mintBadge_setup L W owner (Integer l) c = (ts, c1, Inr p)"
    and lv: "arg_level a = Integer l" by simp_all
  note after = mintBadge_after_setup [OF k s lv]
  note made = mintBadge_setup_Inr [OF s]
  have via: "filter isQuery (trace ?r)
      = filter isQuery (fst (mintBadge_try L W owner l (theAction a) p c1))"
    using after(2) by (rule queries_via_ledgerCalls)
  show "filter isQuery (trace ?r) = [UtxosAtWithUnit (p_badgeHolderAddress p) (p_unit p)]"
    if "theAction a = Retire"
    using that mintBadge_try_Retire_queries [OF made(1) made(2), of W c1] by (simp add: via)
  show "filter isQuery (trace ?r) = []" if "theAction a = Upgrade \<and> l < 1"
    using that by (simp add: via mintBadge_try_Upgrade_0)
  show "\<exists>fromName. makeBadgeAssetName owner (Integer (l - 1)) = Inr fromName
               \<and> (case toUnit L (p_policyId p) fromName of
                    Inr fromUnit \<Rightarrow>
                      filter isQuery (trace ?r)
                        = [UtxosAtWithUnit (p_badgeHolderAddress p) fromUnit]
                  | Inl e \<Rightarrow>
                      filter isQuery (trace ?r) = [] \<and> outcome ?r = Inl e)"
    if u: "theAction a = Upgrade \<and> 1 \<le> l"
  proof -
    from u have act: "theAction a = Upgrade" and l: "1 \<le> l" by simp_all
    from makeBadgeAssetName_below [OF made(1) l] obtain fromName
      where n: "makeBadgeAssetName owner (Integer (l - 1)) = Inr fromName" by blast
    have "case toUnit L (p_policyId p) fromName of
                    Inr fromUnit \<Rightarrow>
                      filter isQuery (trace ?r)
                        = [UtxosAtWithUnit (p_badgeHolderAddress p) fromUnit]
                  | Inl e \<Rightarrow>
                      filter isQuery (trace ?r) = [] \<and> outcome ?r = Inl e"
    proof (cases "toUnit L (p_policyId p) fromName")
      case (Inl e)
      from mintBadge_try_Upgrade_no_unit [OF l n Inl, of W c1] after(1) show ?thesis
        by (simp add: Inl via act outcome_def)
    next
      case (Inr fromUnit)
      from mintBadge_try_Upgrade_queries [OF l n Inr made(1) made(2), of W c1] show ?thesis
        by (simp add: Inr via act)
    qed
    with n show ?thesis by blast
  qed
qed

text \<open>
  The statement of C8 on the sample environment: Init at level 0, Upgrade to the levels 0
  and 1, Retire at level 1.
\<close>

theorem mintBadge_holder_lookups_witness:
  "filter isQuery (trace (mintBadge sampleLib sampleWorld (request Init 0) coldCache)) = []
   \<and> filter isQuery (trace (mintBadge sampleLib sampleWorld (request Upgrade 0) coldCache)) = []
   \<and> filter isQuery (trace (mintBadge sampleLib sampleWorld (request Upgrade 1) coldCache))
       = [UtxosAtWithUnit ''addr_test1holder'' (sampleUnit ''00'')]
   \<and> filter isQuery (trace (mintBadge sampleLib sampleWorld (request Retire 1) coldCache))
       = [UtxosAtWithUnit ''addr_test1holder'' (sampleUnit ''01'')]"
proof -
  have act: "theAction (request Init 0) = Init" "theAction (request Upgrade 0) = Upgrade"
    "theAction (request Upgrade 1) = Upgrade" "theAction (request Retire 1) = Retire"
    and lvl: "arg_level (request Upgrade 0) = Integer 0" "arg_level (request Upgrade 1) = Integer 1"
    "arg_level (request Retire 1) = Integer 1"
    by (simp_all add: request_def theAction_def)
  have p: "p_badgeHolderAddress (samplePrepared levelHex l) = ''addr_test1holder''"
    "p_unit (samplePrepared levelHex l) = sampleUnit levelHex"
    "p_policyId (samplePrepared levelHex l) = samplePolicyId" for levelHex l
    by (simp_all add: samplePrepared_def)
  have unit0: "toUnit sampleLib samplePolicyId name = Inr (samplePolicyId @ name)" for name
    by (simp add: sampleLib_def)
  have a: "filter isQuery (trace (mintBadge sampleLib sampleWorld (request Init 0) coldCache)) = []"
    using mintBadge_holder_lookups [of "request Init 0" sampleLib sampleWorld coldCache] act(1)
    by blast
  have b: "filter isQuery (trace (mintBadge sampleLib sampleWorld (request Upgrade 0) coldCache)) = []"
    using mintBadge_holder_lookups [of "request Upgrade 0" sampleLib sampleWorld coldCache
        sampleOwner 0 "[ReadBlueprint, ConnectLucid]" warmCache "samplePrepared ''00'' 0"]
      act(2) lvl(1) sample_key(1) sample_setup(1) by simp
  from mintBadge_holder_lookups [of "request Upgrade 1" sampleLib sampleWorld coldCache
        sampleOwner 1 "[ReadBlueprint, ConnectLucid]" warmCache "samplePrepared ''01'' 1"]
      act(3) lvl(2) sample_key(1) sample_setup(2)
  obtain fromName where n: "makeBadgeAssetName sampleOwner (Integer (1 - 1)) = Inr fromName"
    and u: "case toUnit sampleLib (p_policyId (samplePrepared ''01'' 1)) fromName of
              Inr fromUnit \<Rightarrow>
                filter isQuery (trace (mintBadge sampleLib sampleWorld (request Upgrade 1) coldCache))
                  = [UtxosAtWithUnit (p_badgeHolderAddress (samplePrepared ''01'' 1)) fromUnit]
            | Inl e \<Rightarrow>
                filter isQuery (trace (mintBadge sampleLib sampleWorld (request Upgrade 1) coldCache)) = []
                \<and> outcome (mintBadge sampleLib sampleWorld (request Upgrade 1) coldCache) = Inl e"
    by auto
  from n sample_names(1) have "fromName = ''5900'' @ sampleOwner" by simp
  with u have c: "filter isQuery (trace (mintBadge sampleLib sampleWorld (request Upgrade 1) coldCache))
       = [UtxosAtWithUnit ''addr_test1holder'' (sampleUnit ''00'')]"
    by (simp add: p unit0 sampleUnit_def)
  have d: "filter isQuery (trace (mintBadge sampleLib sampleWorld (request Retire 1) coldCache))
       = [UtxosAtWithUnit ''addr_test1holder'' (sampleUnit ''01'')]"
    using mintBadge_holder_lookups [of "request Retire 1" sampleLib sampleWorld coldCache
        sampleOwner 1 "[ReadBlueprint, ConnectLucid]" warmCache "samplePrepared ''01'' 1"]
      act(4) lvl(3) sample_key(1) sample_setup(2) by (simp add: p)
  from a b c d show ?thesis by simp
qed

section \<open>Failures of build, sign and submit (C6)\<close>

text \<open>
  C6 as it is written fails: on the sample environment with a builder that fails with
  \<open>boom\<close>, what \<open>mintBadge\<close> throws for Init is that very exception, and neither its
  message nor the log record names the action.
\<close>

theorem mintBadge_failure_counterexample:
  "complete failingBuilder sampleInitSteps = Inl (Failure ''boom'')
   \<and> trace (mintBadge sampleLib failingBuilder (request Init 0) coldCache)
       = [Logger_info [(''ownerKeyHashHex'', sampleOwner), (''level'', ''0''), (''action'', ''Init'')]
            ''mintBadge called'',
          ReadBlueprint, ConnectLucid, TxComplete sampleInitSteps,
          Logger_error (Failure ''boom'') ''Badge mint failed'']
   \<and> outcome (mintBadge sampleLib failingBuilder (request Init 0) coldCache) = Inl (Failure ''boom'')
   \<and> \<not> String_includes (message (Failure ''boom'')) (String_action Init)"
  by code_simp

text \<open>
  Claim C6, amended. When a call has asked the builder for a transaction, a failure of
  build, sign or submit is logged with "Badge mint failed" as the last event and thrown
  again as it is; after a failed build nothing is signed or submitted, after a failed
  signature nothing is submitted. What is submitted is the transaction that was built and
  signed in the same call, and there is at most one submission.
\<close>

theorem mintBadge_failure_propagates:
  "(TxComplete steps \<in> set (trace (mintBadge L W a c)) \<longrightarrow>
      (\<forall>e. complete W steps = Inl e \<longrightarrow>
         outcome (mintBadge L W a c) = Inl e
         \<and> last (trace (mintBadge L W a c)) = Logger_error e ''Badge mint failed''
         \<and> filter isTxCall (trace (mintBadge L W a c)) = [TxComplete steps])
    \<and> (\<forall>tx e. complete W steps = Inr tx \<and> sign W tx = Inl e \<longrightarrow>
         outcome (mintBadge L W a c) = Inl e
         \<and> last (trace (mintBadge L W a c)) = Logger_error e ''Badge mint failed''
         \<and> filter isTxCall (trace (mintBadge L W a c)) = [TxComplete steps, TxSign tx])
    \<and> (\<forall>tx stx e. complete W steps = Inr tx \<and> sign W tx = Inr stx \<and> submit W stx = Inl e \<longrightarrow>
         outcome (mintBadge L W a c) = Inl e
         \<and> last (trace (mintBadge L W a c)) = Logger_error e ''Badge mint failed''
         \<and> filter isTxCall (trace (mintBadge L W a c))
             = [TxComplete steps, TxSign tx, TxSubmit stx])
    \<and> (\<forall>tx stx h. complete W steps = Inr tx \<and> sign W tx = Inr stx \<and> submit W stx = Inr h \<longrightarrow>
         (\<exists>res. outcome (mintBadge L W a c) = Inr res \<and> res_txHash res = h)
         \<and> filter isTxCall (trace (mintBadge L W a c))
             = [TxComplete steps, TxSign tx, TxSubmit stx]))
   \<and> (\<forall>stx. TxSubmit stx \<in> set (trace (mintBadge L W a c)) \<longrightarrow>
         filter isSubmit (trace (mintBadge L W a c)) = [TxSubmit stx]
         \<and> (\<exists>steps' tx. TxComplete steps' \<in> set (trace (mintBadge L W a c))
               \<and> complete W steps' = Inr tx \<and> sign W tx = Inr stx))"
proof -
  let ?r = "mintBadge L W a c"
  note shape = mintBadge_settles [of L W a c]
  have sub: "filter isSubmit (filter isTxCall (trace ?r)) = filter isSubmit (trace ?r)"
    by (rule filter_within) (simp add: isTxCall_def)
  have first: "filter isTxCall (trace ?r) = fst (buildSignSubmit W steps)
      \<and> endsAs (snd (buildSignSubmit W steps)) (outcome ?r)"
    if "TxComplete steps \<in> set (trace ?r)"
  proof -
    from that have in_tx: "TxComplete steps \<in> set (filter isTxCall (trace ?r))"
      by (simp add: isTxCall_def)
    from that have "filter isTxCall (trace ?r) \<noteq> []"
      by (rule filter_nonempty) (simp add: isTxCall_def)
    with shape obtain steps' where s': "filter isTxCall (trace ?r) = fst (buildSignSubmit W steps')"
      "endsAs (snd (buildSignSubmit W steps')) (outcome ?r)"
      by blast
    with in_tx have "steps = steps'" by (simp add: buildSignSubmit_member)
    with s' show ?thesis by simp
  qed
  have logged: "last (trace ?r) = Logger_error e ''Badge mint failed''"
    if "TxComplete steps \<in> set (trace ?r)" "outcome ?r = Inl e" for e
  proof -
    from that(1) have "filter isTxCall (trace ?r) \<noteq> []"
      by (rule filter_nonempty) (simp add: isTxCall_def)
    with shape that(2) show ?thesis by blast
  qed
  have part1: "TxComplete steps \<in> set (trace ?r) \<longrightarrow>
      (\<forall>e. complete W steps = Inl e \<longrightarrow>
         outcome ?r = Inl e \<and> last (trace ?r) = Logger_error e ''Badge mint failed''
         \<and> filter isTxCall (trace ?r) = [TxComplete steps])
    \<and> (\<forall>tx e. complete W steps = Inr tx \<and> sign W tx = Inl e \<longrightarrow>
         outcome ?r = Inl e \<and> last (trace ?r) = Logger_error e ''Badge mint failed''
         \<and> filter isTxCall (trace ?r) = [TxComplete steps, TxSign tx])
    \<and> (\<forall>tx stx e. complete W steps = Inr tx \<and> sign W tx = Inr stx \<and> submit W stx = Inl e \<longrightarrow>
         outcome ?r = Inl e \<and> last (trace ?r) = Logger_error e ''Badge mint failed''
         \<and> filter isTxCall (trace ?r) = [TxComplete steps, TxSign tx, TxSubmit stx])
    \<and> (\<forall>tx stx h. complete W steps = Inr tx \<and> sign W tx = Inr stx \<and> submit W stx = Inr h \<longrightarrow>
         (\<exists>res. outcome ?r = Inr res \<and> res_txHash res = h)
         \<and> filter isTxCall (trace ?r) = [TxComplete steps, TxSign tx, TxSubmit stx])"
  proof
    assume b: "TxComplete steps \<in> set (trace ?r)"
    note f = first [OF b] and l = logged [OF b]
    show "(\<forall>e. complete W steps = Inl e \<longrightarrow>
         outcome ?r = Inl e \<and> last (trace ?r) = Logger_error e ''Badge mint failed''
         \<and> filter isTxCall (trace ?r) = [TxComplete steps])
    \<and> (\<forall>tx e. complete W steps = Inr tx \<and> sign W tx = Inl e \<longrightarrow>
         outcome ?r = Inl e \<and> last (trace ?r) = Logger_error e ''Badge mint failed''
         \<and> filter isTxCall (trace ?r) = [TxComplete steps, TxSign tx])
    \<and> (\<forall>tx stx e. complete W steps = Inr tx \<and> sign W tx = Inr stx \<and> submit W stx = Inl e \<longrightarrow>
         outcome ?r = Inl e \<and> last (trace ?r) = Logger_error e ''Badge mint failed''
         \<and> filter isTxCall (trace ?r) = [TxComplete steps, TxSign tx, TxSubmit stx])
    \<and> (\<forall>tx stx h. complete W steps = Inr tx \<and> sign W tx = Inr stx \<and> submit W stx = Inr h \<longrightarrow>
         (\<exists>res. outcome ?r = Inr res \<and> res_txHash res = h)
         \<and> filter isTxCall (trace ?r) = [TxComplete steps, TxSign tx, TxSubmit stx])"
      using f l by (auto simp: buildSignSubmit_def)
  qed
  have part2: "filter isSubmit (trace ?r) = [TxSubmit stx]
         \<and> (\<exists>steps' tx. TxComplete steps' \<in> set (trace ?r)
               \<and> complete W steps' = Inr tx \<and> sign W tx = Inr stx)"
    if "TxSubmit stx \<in> set (trace ?r)" for stx
  proof -
    from that have in_tx: "TxSubmit stx \<in> set (filter isTxCall (trace ?r))"
      by (simp add: isTxCall_def)
    from that have "filter isTxCall (trace ?r) \<noteq> []"
      by (rule filter_nonempty) (simp add: isTxCall_def)
    with shape obtain steps' where s': "filter isTxCall (trace ?r) = fst (buildSignSubmit W steps')"
      by blast
    from in_tx have in': "TxSubmit stx \<in> set (fst (buildSignSubmit W steps'))"
      by (simp only: s')
    then obtain tx where tx: "complete W steps' = Inr tx" "sign W tx = Inr stx"
      by (auto simp: buildSignSubmit_def split: sum.splits)
    then have all: "fst (buildSignSubmit W steps') = [TxComplete steps', TxSign tx, TxSubmit stx]"
      by (simp add: buildSignSubmit_def)
    have "TxComplete steps' \<in> set (filter isTxCall (trace ?r))"
      by (simp only: s' all) simp
    then have "TxComplete steps' \<in> set (trace ?r)" by simp
    moreover have "filter isSubmit (trace ?r) = [TxSubmit stx]"
      using sub by (simp add: s' all)
    ultimately show ?thesis using tx by blast
  qed
  from part1 part2 show ?thesis by blast
qed

text \<open>The statement of C6 on the sample environment with the failing builder.\<close>

theorem mintBadge_failure_propagates_witness:
  "TxComplete sampleInitSteps \<in> set (trace (mintBadge sampleLib failingBuilder (request Init 0) coldCache))
   \<and> complete failingBuilder sampleInitSteps = Inl (Failure ''boom'')
   \<and> outcome (mintBadge sampleLib failingBuilder (request Init 0) coldCache) = Inl (Failure ''boom'')
   \<and> last (trace (mintBadge sampleLib failingBuilder (request Init 0) coldCache))
       = Logger_error (Failure ''boom'') ''Badge mint failed''
   \<and> filter isTxCall (trace (mintBadge sampleLib failingBuilder (request Init 0) coldCache))
       = [TxComplete sampleInitSteps]"
proof -
  have b: "TxComplete sampleInitSteps
      \<in> set (trace (mintBadge sampleLib failingBuilder (request Init 0) coldCache))"
    by code_simp
  have f: "complete failingBuilder sampleInitSteps = Inl (Failure ''boom'')"
    by (simp add: failingBuilder_def)
  from mintBadge_failure_propagates [of sampleInitSteps sampleLib failingBuilder "request Init 0" coldCache]
    b f show ?thesis by blast
qed

section \<open>Mint quantities (C1)\<close>

text \<open>
  Claim C1. When the key hash and the set-up of a call at level \<open>l\<close> have succeeded, the
  unit of the set-up is the unit of level \<open>l\<close>, and the one transaction that the call
  builds asks for these quantities: Init, \<open>+1\<close> of the unit of level \<open>l\<close>; Upgrade (for
  \<open>l\<close> of at least 1, with the holder output found), \<open>-1\<close> of the unit of level \<open>l - 1\<close>
  and \<open>+1\<close> of the unit of level \<open>l\<close>; Retire (with the holder output found), \<open>-1\<close> of the
  unit of level \<open>l\<close> and no output.
\<close>

theorem mintBadge_mint_quantities:
  assumes "getBackendPaymentKeyHashHex W = Inr owner"
    and "mintBadge_setup L W owner (Integer l) c = (ts, c1, Inr p)"
    and "arg_level a = Integer l"
  shows "makeBadgeAssetName owner (Integer l) = Inr (p_assetNameHex p)
       \<and> toUnit L (p_policyId p) (p_assetNameHex p) = Inr (p_unit p)
       \<and> (theAction a = Init
          \<and> encodeBadgeMintRedeemer L Init owner
               \<lparr>args_level = Some (Integer l), args_fromLevel = None, args_toLevel = None\<rparr>
             = Inr mintRedeemer
          \<longrightarrow> theBuild (mintBadge L W a c)
                = Some [AttachMintingPolicy (p_badgeMintPolicy p),
                    AddSignerKey owner,
                    MintAssets [(p_unit p, 1)] mintRedeemer,
                    PayToContract (p_badgeHolderAddress p) (p_badgeDatumCbor p)
                      [(''lovelace'', 2000000), (p_unit p, 1)]]
              \<and> Option.bind (theBuild (mintBadge L W a c)) theMint = Some [(p_unit p, 1)]
              \<and> quantityOf [(p_unit p, 1)] (p_unit p) = Some 1)
       \<and> (theAction a = Upgrade \<and> 1 \<le> l
          \<and> makeBadgeAssetName owner (Integer (l - 1)) = Inr fromName
          \<and> toUnit L (p_policyId p) fromName = Inr fromUnit
          \<and> utxosAtWithUnit W (p_badgeHolderAddress p) fromUnit = Inr (u # us)
          \<and> encodeBadgeMintRedeemer L Upgrade owner
               \<lparr>args_level = None, args_fromLevel = Some (Integer (l - 1)),
                args_toLevel = Some (Integer l)\<rparr>
             = Inr mintRedeemer
          \<and> encodeBadgeHolderRedeemer L Upgrade (Some (Integer l)) = Inr spendRedeemer
          \<longrightarrow> theBuild (mintBadge L W a c)
                = Some [AttachMintingPolicy (p_badgeMintPolicy p),
                    AttachSpendingValidator (p_badgeHolderValidator p),
                    AddSignerKey owner,
                    CollectFrom [u] spendRedeemer,
                    MintAssets [(fromUnit, - 1), (p_unit p, 1)] mintRedeemer,
                    PayToContract (p_badgeHolderAddress p) (p_badgeDatumCbor p)
                      [(''lovelace'', 2000000), (p_unit p, 1)]]
              \<and> Option.bind (theBuild (mintBadge L W a c)) theMint
                  = Some [(fromUnit, - 1), (p_unit p, 1)]
              \<and> quantityOf [(fromUnit, - 1), (p_unit p, 1)] (p_unit p) = Some 1
              \<and> (fromUnit \<noteq> p_unit p
                  \<longrightarrow> quantityOf [(fromUnit, - 1), (p_unit p, 1)] fromUnit = Some (- 1)))
       \<and> (theAction a = Retire
          \<and> utxosAtWithUnit W (p_badgeHolderAddress p) (p_unit p) = Inr (u # us)
          \<and> encodeBadgeMintRedeemer L Retire owner
               \<lparr>args_level = Some (Integer l), args_fromLevel = None, args_toLevel = None\<rparr>
             = Inr mintRedeemer
          \<and> encodeBadgeHolderRedeemer L Retire None = Inr spendRedeemer
          \<longrightarrow> theBuild (mintBadge L W a c)
                = Some [AttachMintingPolicy (p_badgeMintPolicy p),
                    AttachSpendingValidator (p_badgeHolderValidator p),
                    AddSignerKey owner,
                    CollectFrom [u] spendRedeemer,
                    MintAssets [(p_unit p, - 1)] mintRedeemer]
              \<and> Option.bind (theBuild (mintBadge L W a c)) theMint = Some [(p_unit p, - 1)]
              \<and> map_option (filter isOutput) (theBuild (mintBadge L W a c)) = Some []
              \<and> quantityOf [(p_unit p, - 1)] (p_unit p) = Some (- 1))"
proof -
  let ?r = "mintBadge L W a c"
  note made = mintBadge_setup_Inr [OF assms(2)]
  have via: "theBuild ?r = onlyBuild (fst (mintBadge_try L W owner l (theAction a) p c1))"
    using mintBadge_after_setup(2) [OF assms] by (rule theBuild_via_ledgerCalls)
  have init: "theBuild ?r
                = Some [AttachMintingPolicy (p_badgeMintPolicy p),
                    AddSignerKey owner,
                    MintAssets [(p_unit p, 1)] mintRedeemer,
                    PayToContract (p_badgeHolderAddress p) (p_badgeDatumCbor p)
                      [(''lovelace'', 2000000), (p_unit p, 1)]]"
    if "theAction a = Init
          \<and> encodeBadgeMintRedeemer L Init owner
               \<lparr>args_level = Some (Integer l), args_fromLevel = None, args_toLevel = None\<rparr>
             = Inr mintRedeemer"
    using that mintBadge_try_Init_builds [of L owner l mintRedeemer W p c1] by (simp add: via)
  have upgrade: "theBuild ?r
                = Some [AttachMintingPolicy (p_badgeMintPolicy p),
                    AttachSpendingValidator (p_badgeHolderValidator p),
                    AddSignerKey owner,
                    CollectFrom [u] spendRedeemer,
                    MintAssets [(fromUnit, - 1), (p_unit p, 1)] mintRedeemer,
                    PayToContract (p_badgeHolderAddress p) (p_badgeDatumCbor p)
                      [(''lovelace'', 2000000), (p_unit p, 1)]]"
    if "theAction a = Upgrade \<and> 1 \<le> l
          \<and> makeBadgeAssetName owner (Integer (l - 1)) = Inr fromName
          \<and> toUnit L (p_policyId p) fromName = Inr fromUnit
          \<and> utxosAtWithUnit W (p_badgeHolderAddress p) fromUnit = Inr (u # us)
          \<and> encodeBadgeMintRedeemer L Upgrade owner
               \<lparr>args_level = None, args_fromLevel = Some (Integer (l - 1)),
                args_toLevel = Some (Integer l)\<rparr>
             = Inr mintRedeemer
          \<and> encodeBadgeHolderRedeemer L Upgrade (Some (Integer l)) = Inr spendRedeemer"
  proof -
    from that have h: "1 \<le> l" "makeBadgeAssetName owner (Integer (l - 1)) = Inr fromName"
      "toUnit L (p_policyId p) fromName = Inr fromUnit"
      and h': "utxosAtWithUnit W (p_badgeHolderAddress p) fromUnit = Inr (u # us)"
      "encodeBadgeMintRedeemer L Upgrade owner
               \<lparr>args_level = None, args_fromLevel = Some (Integer (l - 1)),
                args_toLevel = Some (Integer l)\<rparr>
             = Inr mintRedeemer"
      "encodeBadgeHolderRedeemer L Upgrade (Some (Integer l)) = Inr spendRedeemer"
      and act: "theAction a = Upgrade"
      by simp_all
    show ?thesis
      using mintBadge_try_Upgrade_builds [OF h made(1) made(2) made(3) h', of c1]
      by (simp add: via act)
  qed
  have retire: "theBuild ?r
                = Some [AttachMintingPolicy (p_badgeMintPolicy p),
                    AttachSpendingValidator (p_badgeHolderValidator p),
                    AddSignerKey owner,
                    CollectFrom [u] spendRedeemer,
                    MintAssets [(p_unit p, - 1)] mintRedeemer]"
    if "theAction a = Retire
          \<and> utxosAtWithUnit W (p_badgeHolderAddress p) (p_unit p) = Inr (u # us)
          \<and> encodeBadgeMintRedeemer L Retire owner
               \<lparr>args_level = Some (Integer l), args_fromLevel = None, args_toLevel = None\<rparr>
             = Inr mintRedeemer
          \<and> encodeBadgeHolderRedeemer L Retire None = Inr spendRedeemer"
  proof -
    from that have h: "utxosAtWithUnit W (p_badgeHolderAddress p) (p_unit p) = Inr (u # us)"
      "encodeBadgeMintRedeemer L Retire owner
               \<lparr>args_level = Some (Integer l), args_fromLevel = None, args_toLevel = None\<rparr>
             = Inr mintRedeemer"
      "encodeBadgeHolderRedeemer L Retire None = Inr spendRedeemer"
      and act: "theAction a = Retire"
      by simp_all
    show ?thesis
      using mintBadge_try_Retire_builds [OF made(1) made(2) h, of c1] by (simp add: via act)
  qed
  show ?thesis
  proof (intro conjI impI)
    show "makeBadgeAssetName owner (Integer l) = Inr (p_assetNameHex p)" by (rule made(1))
    show "toUnit L (p_policyId p) (p_assetNameHex p) = Inr (p_unit p)" by (rule made(2))
  next
    assume h: "theAction a = Init
          \<and> encodeBadgeMintRedeemer L Init owner
               \<lparr>args_level = Some (Integer l), args_fromLevel = None, args_toLevel = None\<rparr>
             = Inr mintRedeemer"
    show "theBuild ?r
                = Some [AttachMintingPolicy (p_badgeMintPolicy p),
                    AddSignerKey owner,
                    MintAssets [(p_unit p, 1)] mintRedeemer,
                    PayToContract (p_badgeHolderAddress p) (p_badgeDatumCbor p)
                      [(''lovelace'', 2000000), (p_unit p, 1)]]"
      using h by (rule init)
    show "Option.bind (theBuild ?r) theMint = Some [(p_unit p, 1)]"
      by (simp add: init [OF h] theMint_def List.map_filter_simps)
    show "quantityOf [(p_unit p, 1)] (p_unit p) = Some 1"
      by (simp add: quantityOf_def)
  next
    assume h: "theAction a = Upgrade \<and> 1 \<le> l
          \<and> makeBadgeAssetName owner (Integer (l - 1)) = Inr fromName
          \<and> toUnit L (p_policyId p) fromName = Inr fromUnit
          \<and> utxosAtWithUnit W (p_badgeHolderAddress p) fromUnit = Inr (u # us)
          \<and> encodeBadgeMintRedeemer L Upgrade owner
               \<lparr>args_level = None, args_fromLevel = Some (Integer (l - 1)),
                args_toLevel = Some (Integer l)\<rparr>
             = Inr mintRedeemer
          \<and> encodeBadgeHolderRedeemer L Upgrade (Some (Integer l)) = Inr spendRedeemer"
    show "theBuild ?r
                = Some [AttachMintingPolicy (p_badgeMintPolicy p),
                    AttachSpendingValidator (p_badgeHolderValidator p),
                    AddSignerKey owner,
                    CollectFrom [u] spendRedeemer,
                    MintAssets [(fromUnit, - 1), (p_unit p, 1)] mintRedeemer,
                    PayToContract (p_badgeHolderAddress p) (p_badgeDatumCbor p)
                      [(''lovelace'', 2000000), (p_unit p, 1)]]"
      using h by (rule upgrade)
    show "Option.bind (theBuild ?r) theMint = Some [(fromUnit, - 1), (p_unit p, 1)]"
      by (simp add: upgrade [OF h] theMint_def List.map_filter_simps)
    show "quantityOf [(fromUnit, - 1), (p_unit p, 1)] (p_unit p) = Some 1"
      by (simp add: quantityOf_def)
    show "quantityOf [(fromUnit, - 1), (p_unit p, 1)] fromUnit = Some (- 1)"
      if "fromUnit \<noteq> p_unit p"
      using that by (simp add: quantityOf_def)
  next
    assume h: "theAction a = Retire
          \<and> utxosAtWithUnit W (p_badgeHolderAddress p) (p_unit p) = Inr (u # us)
          \<and> encodeBadgeMintRedeemer L Retire owner
               \<lparr>args_level = Some (Integer l), args_fromLevel = None, args_toLevel = None\<rparr>
             = Inr mintRedeemer
          \<and> encodeBadgeHolderRedeemer L Retire None = Inr spendRedeemer"
    show "theBuild ?r
                = Some [AttachMintingPolicy (p_badgeMintPolicy p),
                    AttachSpendingValidator (p_badgeHolderValidator p),
                    AddSignerKey owner,
                    CollectFrom [u] spendRedeemer,
                    MintAssets [(p_unit p, - 1)] mintRedeemer]"
      using h by (rule retire)
    show "Option.bind (theBuild ?r) theMint = Some [(p_unit p, - 1)]"
      by (simp add: retire [OF h] theMint_def List.map_filter_simps)
    show "map_option (filter isOutput) (theBuild ?r) = Some []"
      by (simp add: retire [OF h])
    show "quantityOf [(p_unit p, - 1)] (p_unit p) = Some (- 1)"
      by (simp add: quantityOf_def)
  qed
qed

text \<open>
  The statement of C1 on the sample environment: Init at level 0, Upgrade to level 1 and
  Retire at level 1.
\<close>

theorem mintBadge_mint_quantities_witness:
  "theBuild (mintBadge sampleLib sampleWorld (request Init 0) coldCache) = Some sampleInitSteps
   \<and> Option.bind (theBuild (mintBadge sampleLib sampleWorld (request Init 0) coldCache)) theMint
       = Some [(sampleUnit ''00'', 1)]
   \<and> theBuild (mintBadge sampleLib sampleWorld (request Upgrade 1) coldCache) = Some sampleUpgradeSteps
   \<and> Option.bind (theBuild (mintBadge sampleLib sampleWorld (request Upgrade 1) coldCache)) theMint
       = Some [(sampleUnit ''00'', - 1), (sampleUnit ''01'', 1)]
   \<and> quantityOf [(sampleUnit ''00'', - 1), (sampleUnit ''01'', 1)] (sampleUnit ''00'') = Some (- 1)
   \<and> quantityOf [(sampleUnit ''00'', - 1), (sampleUnit ''01'', 1)] (sampleUnit ''01'') = Some 1
   \<and> theBuild (mintBadge sampleLib sampleWorld (request Retire 1) coldCache) = Some sampleRetireSteps
   \<and> Option.bind (theBuild (mintBadge sampleLib sampleWorld (request Retire 1) coldCache)) theMint
       = Some [(sampleUnit ''01'', - 1)]
   \<and> map_option (filter isOutput) (theBuild (mintBadge sampleLib sampleWorld (request Retire 1) coldCache))
       = Some []"
proof -
  have act: "theAction (request Init 0) = Init" "theAction (request Upgrade 1) = Upgrade"
    "theAction (request Retire 1) = Retire"
    and lvl: "arg_level (request Init 0) = Integer 0" "arg_level (request Upgrade 1) = Integer 1"
    "arg_level (request Retire 1) = Integer 1"
    by (simp_all add: request_def theAction_def)
  have p: "p_badgeHolderAddress (samplePrepared levelHex l) = ''addr_test1holder''"
    "p_unit (samplePrepared levelHex l) = sampleUnit levelHex"
    "p_policyId (samplePrepared levelHex l) = samplePolicyId"
    "p_badgeMintPolicy (samplePrepared levelHex l) = PlutusV3 ''5902bb''"
    "p_badgeHolderValidator (samplePrepared levelHex l) = PlutusV3 ''5901aa''"
    "p_badgeDatumCbor (samplePrepared levelHex l)
       = sampleCbor (Constr 0 [DString sampleOwner, DBigInt l, DString samplePolicyId])"
    for levelHex l
    by (simp_all add: samplePrepared_def)
  have unit0: "toUnit sampleLib samplePolicyId (''5900'' @ sampleOwner) = Inr (sampleUnit ''00'')"
    by (simp add: sampleLib_def sampleUnit_def)
  have found: "utxosAtWithUnit sampleWorld address u = Inr (UTxO ''aa01'' 0 # [])" for address u
    by (simp add: sampleWorld_def)
  have enc: "encodeBadgeMintRedeemer sampleLib Init sampleOwner
        \<lparr>args_level = Some (Integer 0), args_fromLevel = None, args_toLevel = None\<rparr>
      = Inr (sampleCbor (Constr 0 [DString sampleOwner, DBigInt 0]))"
    "encodeBadgeMintRedeemer sampleLib Upgrade sampleOwner
        \<lparr>args_level = None, args_fromLevel = Some (Integer (1 - 1)), args_toLevel = Some (Integer 1)\<rparr>
      = Inr (sampleCbor (Constr 1 [DString sampleOwner, DBigInt 0, DBigInt 1]))"
    "encodeBadgeHolderRedeemer sampleLib Upgrade (Some (Integer 1))
      = Inr (sampleCbor (Constr 0 [DBigInt 1]))"
    "encodeBadgeMintRedeemer sampleLib Retire sampleOwner
        \<lparr>args_level = Some (Integer 1), args_fromLevel = None, args_toLevel = None\<rparr>
      = Inr (sampleCbor (Constr 2 [DString sampleOwner, DBigInt 1]))"
    "encodeBadgeHolderRedeemer sampleLib Retire None = Inr (sampleCbor (Constr 1 []))"
    by (simp_all add: encodeBadgeMintRedeemer_def encodeBadgeHolderRedeemer_def sampleLib_def)
  have from0: "makeBadgeAssetName sampleOwner (Integer (1 - 1)) = Inr (''5900'' @ sampleOwner)"
    using sample_names(1) by simp
  have differ: "sampleUnit ''00'' \<noteq> sampleUnit ''01''"
    by (simp add: sampleUnit_def)
  note i = mintBadge_mint_quantities [OF sample_key(1) sample_setup(1) lvl(1),
      where mintRedeemer = "sampleCbor (Constr 0 [DString sampleOwner, DBigInt 0])"
      and fromName = "[]" and fromUnit = "[]" and u = "UTxO ''aa01'' 0" and us = "[]"
      and spendRedeemer = "[]"]
  have a: "theBuild (mintBadge sampleLib sampleWorld (request Init 0) coldCache) = Some sampleInitSteps
   \<and> Option.bind (theBuild (mintBadge sampleLib sampleWorld (request Init 0) coldCache)) theMint
       = Some [(sampleUnit ''00'', 1)]"
    using i act(1) enc(1) by (simp add: p sampleInitSteps_def theMint_def List.map_filter_simps)
  note u = mintBadge_mint_quantities [OF sample_key(1) sample_setup(2) lvl(2),
      where mintRedeemer = "sampleCbor (Constr 1 [DString sampleOwner, DBigInt 0, DBigInt 1])"
      and fromName = "''5900'' @ sampleOwner" and fromUnit = "sampleUnit ''00''"
      and u = "UTxO ''aa01'' 0" and us = "[]"
      and spendRedeemer = "sampleCbor (Constr 0 [DBigInt 1])"]
  have b: "theBuild (mintBadge sampleLib sampleWorld (request Upgrade 1) coldCache) = Some sampleUpgradeSteps
   \<and> Option.bind (theBuild (mintBadge sampleLib sampleWorld (request Upgrade 1) coldCache)) theMint
       = Some [(sampleUnit ''00'', - 1), (sampleUnit ''01'', 1)]
   \<and> quantityOf [(sampleUnit ''00'', - 1), (sampleUnit ''01'', 1)] (sampleUnit ''00'') = Some (- 1)
   \<and> quantityOf [(sampleUnit ''00'', - 1), (sampleUnit ''01'', 1)] (sampleUnit ''01'') = Some 1"
    using u act(2) enc(2,3) from0 unit0 found differ by (simp add: p sampleUpgradeSteps_def theMint_def List.map_filter_simps)
  note r = mintBadge_mint_quantities [OF sample_key(1) sample_setup(2) lvl(3),
      where mintRedeemer = "sampleCbor (Constr 2 [DString sampleOwner, DBigInt 1])"
      and fromName = "[]" and fromUnit = "[]" and u = "UTxO ''aa01'' 0" and us = "[]"
      and spendRedeemer = "sampleCbor (Constr 1 [])"]
  have c: "theBuild (mintBadge sampleLib sampleWorld (request Retire 1) coldCache) = Some sampleRetireSteps
   \<and> Option.bind (theBuild (mintBadge sampleLib sampleWorld (request Retire 1) coldCache)) theMint
       = Some [(sampleUnit ''01'', - 1)]
   \<and> map_option (filter isOutput) (theBuild (mintBadge sampleLib sampleWorld (request Retire 1) coldCache))
       = Some []"
    using r act(3) enc(4,5) found by (simp add: p sampleRetireSteps_def theMint_def List.map_filter_simps)
  from a b c show ?thesis by blast
qed

section \<open>The owner hint (C3)\<close>



end
